theory Spec2Isabelle
  imports Complex_Main "HOL-Library.Word"
begin

section \<open>InfiniDB: generated virtual tables (main.go)\<close>

text \<open>
  A shallow embedding of the virtual-table module of \<^verbatim>\<open>main.go\<close>: the module's
  \<^verbatim>\<open>Connect\<close>, the table's \<^verbatim>\<open>Open\<close> and the cursor's methods.

  Conventions of the embedding.
  \<^item> Go structs are records with the fields of the source; Go strings and byte slices
    are lists of 8-bit characters.
  \<^item> Go's \<^verbatim>\<open>int\<close> and \<^verbatim>\<open>int64\<close> are 64-bit words read in two's complement
    (\<open>sint\<close>), so that \<^verbatim>\<open>pos += 1\<close> wraps around as on a 64-bit platform.
  \<^item> A \<^verbatim>\<open>float64\<close> is modelled by the real number it denotes. The only values the
    cursor ever reads come from \<^verbatim>\<open>json.Unmarshal\<close>, which produces finite numbers.
  \<^item> Every \<^verbatim>\<open>return nil, fmt.Errorf(...)\<close> of the source is one constructor of
    \<open>error\<close>; a function that can fail returns \<open>error + 'a\<close>.
  \<^item> The package variable \<^verbatim>\<open>schemaCache\<close> and the cache directory on disk are
    fields of an explicit state \<open>world\<close> that every operation takes and returns.
  \<^item> What the outside decides during one call (the environment variable, the prompt
    template, the answer of the generative service, SQLite's \<^verbatim>\<open>DeclareVTab\<close>, the
    file system's permissions) is a record \<open>env\<close>; the pure library functions
    (\<^verbatim>\<open>encoding/json\<close>, \<^verbatim>\<open>filepath.Join\<close>) are a record \<open>lib\<close>. Theorems
    hold for every \<open>env\<close> and every \<open>lib\<close>.
  \<^item> Messages printed on standard output (the cache notice and the two warnings) are
    not part of the state.
\<close>

subsection \<open>Data model\<close>

text \<open>\<^verbatim>\<open>type Column struct\<close> (lines 21-26).\<close>

record Column =
  Name :: string
  Type :: string
  Constraints :: string
  Description :: string

text \<open>\<^verbatim>\<open>type PromptData struct\<close> (lines 34-37).\<close>

record PromptData =
  TableName :: string
  TableDesc :: string

text \<open>
  The dynamic values a row holds, \<^verbatim>\<open>interface{}\<close> in \<^verbatim>\<open>map[string]interface{}\<close>.
  \<^verbatim>\<open>json.Unmarshal\<close> stores \<^verbatim>\<open>nil\<close>, \<^verbatim>\<open>bool\<close>, \<^verbatim>\<open>float64\<close>, \<^verbatim>\<open>string\<close>,
  \<^verbatim>\<open>[]interface{}\<close> and \<^verbatim>\<open>map[string]interface{}\<close>; the cursor also tests for
  \<^verbatim>\<open>int64\<close> and \<^verbatim>\<open>[]byte\<close>.
\<close>

datatype val =
    NilVal
  | Bool bool
  | Float64 real
  | Int64 "64 word"
  | String string
  | Bytes "char list"
  | Array "val list"
  | Object "(string \<times> val) list"

type_synonym row = "string \<rightharpoonup> val"

text \<open>
  The errors of the module, one constructor for each \<^verbatim>\<open>fmt.Errorf\<close> of the source
  (and one for the run-time panic of \<^verbatim>\<open>chat.Choices[0]\<close> on an empty answer):

  \<^item> \<open>MissingArgs\<close>: "missing table name argument" (line 60);
  \<^item> \<open>ApiKeyNotSet\<close>: "OPENAI_API_KEY not set" (lines 73, 181);
  \<^item> \<open>PromptError\<close>: "failed to render schema prompt" / "failed to render data prompt"
    (lines 86, 195);
  \<^item> \<open>GeneratorError\<close>: "schema generation failed" / "data generation failed"
    (lines 100, 209);
  \<^item> \<open>IndexPanic\<close>: \<^verbatim>\<open>chat.Choices[0]\<close> with no choice (lines 104, 217);
  \<^item> \<open>ParseError\<close>: "failed to parse schema JSON" / "failed to parse data JSON"
    (lines 105, 218), the specification's MalformedResponse;
  \<^item> \<open>EmptySchema\<close>: "no columns generated" (line 110);
  \<^item> \<open>DuplicateColumn n\<close>: "invalid or duplicate column name: n" (line 118);
  \<^item> \<open>InvalidType t n\<close>: "invalid column type: t for n" (line 122);
  \<^item> \<open>DeclareError\<close>: the error of \<^verbatim>\<open>c.DeclareVTab\<close> (line 141);
  \<^item> \<open>EmptyData\<close>: "no data generated" (line 222);
  \<^item> \<open>CursorOutOfRange\<close>: "invalid cursor position or column index" (line 261);
  \<^item> \<open>TypeMismatch n t\<close>: "type mismatch for n: expected t" (lines 280-300);
  \<^item> \<open>UnsupportedType t\<close>: "unsupported column type: t" (line 303).
\<close>

datatype error =
    MissingArgs
  | ApiKeyNotSet
  | PromptError string
  | GeneratorError string
  | IndexPanic
  | ParseError string
  | EmptySchema
  | DuplicateColumn string
  | InvalidType string string
  | DeclareError string
  | EmptyData
  | CursorOutOfRange
  | TypeMismatch string string
  | UnsupportedType string

text \<open>\<^verbatim>\<open>type InfiniTable struct\<close> (lines 149-153).\<close>

record InfiniTable =
  tableName :: string
  tableDesc :: string
  columns :: "Column list"

text \<open>
  \<^verbatim>\<open>type InfiniCursor struct\<close> (lines 234-239). The fields \<^verbatim>\<open>tableName\<close> and
  \<^verbatim>\<open>columns\<close> carry the prefix \<open>cur\<close> to keep them apart from the table's.
\<close>

record InfiniCursor =
  curTableName :: string
  data :: "row list"
  pos :: "64 word"
  curColumns :: "Column list"

text \<open>
  The property schema that \<^verbatim>\<open>makeDataSchema\<close> builds for one column (its JSON type
  and its description), and the shape of the whole request: the properties by column
  name and the list of required names.
\<close>

record DataSchema =
  properties :: "string \<rightharpoonup> (string \<times> string)"
  required :: "string list"

text \<open>
  A request to the generative service: the prompt and the response format, which is the
  reflected \<^verbatim>\<open>TableSchema\<close> for a schema request and the result of
  \<^verbatim>\<open>makeDataSchema\<close> for a data request.
\<close>

datatype request =
    SchemaRequest string
  | DataRequest string DataSchema

text \<open>
  The state: the package variable \<^verbatim>\<open>schemaCache\<close> (line 32), the directories and
  files on disk, and the requests sent to the generative service so far. The last field
  is a history variable: the source keeps no such log, the model records every call of
  \<^verbatim>\<open>client.Chat.Completions.New\<close> in it.
\<close>

record world =
  schemaCache :: "string \<rightharpoonup> Column list"
  dirs :: "string set"
  files :: "string \<rightharpoonup> string"
  sent :: "request list"

text \<open>
  The environment of one call.
  \<^item> \<open>Getenv\<close>: \<^verbatim>\<open>os.Getenv\<close>.
  \<^item> \<open>renderPrompt\<close>: the function of lines 39-49; it reads a template file, so its
    result (an error message or the prompt) belongs to the environment.
  \<^item> \<open>New\<close>: \<^verbatim>\<open>client.Chat.Completions.New\<close>; an error message, or the contents of
    the choices of the answer.
  \<^item> \<open>DeclareVTab\<close>: SQLite's answer to the declared schema, \<open>None\<close> for success.
  \<^item> \<open>MkdirAll\<close>, \<open>readable\<close>, \<open>WriteFile\<close>: whether the directory can be created, the
    file read and the file written. A write that succeeds stores the whole contents; a
    write that fails leaves the files as they were.
\<close>

record env =
  Getenv :: "string \<Rightarrow> string"
  renderPrompt :: "string \<Rightarrow> PromptData \<Rightarrow> string + string"
  New :: "request \<Rightarrow> string + string list"
  DeclareVTab :: "string \<Rightarrow> string option"
  MkdirAll :: "string \<Rightarrow> bool"
  readable :: "string \<Rightarrow> bool"
  WriteFile :: "string \<Rightarrow> string \<Rightarrow> bool"

text \<open>
  The library functions.
  \<^item> \<open>Unmarshal_schema\<close>: \<^verbatim>\<open>json.Unmarshal\<close> into a \<^verbatim>\<open>TableSchema\<close>, giving its
    \<^verbatim>\<open>Columns\<close>.
  \<^item> \<open>Unmarshal_rows\<close>: \<^verbatim>\<open>json.Unmarshal\<close> into \<^verbatim>\<open>[]map[string]interface{}\<close>.
  \<^item> \<open>Unmarshal_data\<close>: \<^verbatim>\<open>json.Unmarshal\<close> into a \<^verbatim>\<open>DataResponse\<close>, giving its
    \<^verbatim>\<open>Rows\<close>.
  \<^item> \<open>Marshal\<close>: \<^verbatim>\<open>json.Marshal\<close> of a row sequence.
  \<^item> \<open>Join\<close>: \<^verbatim>\<open>filepath.Join\<close> of two path elements.
  \<^item> \<open>int64_overflow\<close>: the value of \<^verbatim>\<open>int64(v)\<close> for a \<^verbatim>\<open>float64\<close> outside the
    range of \<^verbatim>\<open>int64\<close>, which Go leaves to the implementation.
\<close>

record lib =
  Unmarshal_schema :: "string \<Rightarrow> string + Column list"
  Unmarshal_rows :: "string \<Rightarrow> string + row list"
  Unmarshal_data :: "string \<Rightarrow> string + row list"
  Marshal :: "row list \<Rightarrow> string + string"
  Join :: "string \<Rightarrow> string \<Rightarrow> string"
  int64_overflow :: "real \<Rightarrow> 64 word"

subsection \<open>Connect\<close>

text \<open>\<^verbatim>\<open>validTypes\<close> (line 115): a Go map to \<^verbatim>\<open>bool\<close>, false where it has no key.\<close>

definition validTypes :: "string \<Rightarrow> bool" where
  "validTypes = (\<lambda>_. False)(''INTEGER'' := True, ''TEXT'' := True, ''REAL'' := True, ''BLOB'' := True)"

text \<open>
  The validation loop of lines 116-124, with \<^verbatim>\<open>seenNames\<close> as its accumulator: the
  first column whose name is empty or seen, or whose type is not valid, ends the loop
  with its error.
\<close>

fun validate_loop :: "(string \<Rightarrow> bool) \<Rightarrow> Column list \<Rightarrow> error + unit" where
  "validate_loop seenNames [] = Inr ()"
| "validate_loop seenNames (col # cols) =
     (if Name col = '''' \<or> seenNames (Name col) then Inl (DuplicateColumn (Name col))
      else if \<not> validTypes (Type col) then Inl (InvalidType (Type col) (Name col))
      else validate_loop (seenNames(Name col := True)) cols)"

text \<open>The validation of lines 109-124: the test for no columns, then the loop.\<close>

definition validate :: "Column list \<Rightarrow> error + unit" where
  "validate cols =
     (if length cols = 0 then Inl EmptySchema else validate_loop (\<lambda>_. False) cols)"

text \<open>
  Lines 67-127 of \<^verbatim>\<open>Connect\<close>: the columns of the table, from the cache or from the
  generative service. The request is recorded in \<open>sent\<close> when the call is made.
\<close>

definition resolve :: "lib \<Rightarrow> env \<Rightarrow> string \<Rightarrow> string \<Rightarrow> world \<Rightarrow> (error + Column list) \<times> world" where
  "resolve L E name desc w =
     (case schemaCache w name of
        Some cached \<Rightarrow> (Inr cached, w)
      | None \<Rightarrow>
          if Getenv E ''OPENAI_API_KEY'' = '''' then (Inl ApiKeyNotSet, w)
          else
            (case renderPrompt E ''prompts/schema_generation.txt''
                    \<lparr>TableName = name, TableDesc = desc\<rparr> of
               Inl err \<Rightarrow> (Inl (PromptError err), w)
             | Inr prompt \<Rightarrow>
                 let w1 = w\<lparr>sent := sent w @ [SchemaRequest prompt]\<rparr> in
                 (case New E (SchemaRequest prompt) of
                    Inl err \<Rightarrow> (Inl (GeneratorError err), w1)
                  | Inr [] \<Rightarrow> (Inl IndexPanic, w1)
                  | Inr (content # _) \<Rightarrow>
                      (case Unmarshal_schema L content of
                         Inl err \<Rightarrow> (Inl (ParseError err), w1)
                       | Inr cols \<Rightarrow>
                           (case validate cols of
                              Inl e \<Rightarrow> (Inl e, w1)
                            | Inr _ \<Rightarrow>
                                (Inr cols,
                                 w1\<lparr>schemaCache := (schemaCache w1)(name \<mapsto> cols)\<rparr>))))))"

text \<open>\<^verbatim>\<open>strings.Join\<close>.\<close>

fun strings_Join :: "string list \<Rightarrow> string \<Rightarrow> string" where
  "strings_Join [] sep = ''''"
| "strings_Join [x] sep = x"
| "strings_Join (x # y # ys) sep = x @ sep @ strings_Join (y # ys) sep"

text \<open>Lines 130-138: the \<^verbatim>\<open>CREATE TABLE\<close> statement declared to SQLite.\<close>

definition schemaPart :: "Column \<Rightarrow> string" where
  "schemaPart col =
     (let part = Name col @ '' '' @ Type col
      in if Constraints col \<noteq> '''' then part @ '' '' @ Constraints col else part)"

definition schemaString :: "Column list \<Rightarrow> string" where
  "schemaString cols =
     ''CREATE TABLE virtual_table ('' @ strings_Join (map schemaPart cols) '', '' @ '')''"

text \<open>\<^verbatim>\<open>func (m *InfiniDBModule) Connect\<close> (lines 57-145).\<close>

definition Connect :: "lib \<Rightarrow> env \<Rightarrow> string list \<Rightarrow> world \<Rightarrow> (error + InfiniTable) \<times> world" where
  "Connect L E args w =
     (if length args < 4 then (Inl MissingArgs, w)
      else
        (case resolve L E (args ! 2) (args ! 3) w of
           (Inl e, w') \<Rightarrow> (Inl e, w')
         | (Inr cols, w') \<Rightarrow>
             (case DeclareVTab E (schemaString cols) of
                Some err \<Rightarrow> (Inl (DeclareError err), w')
              | None \<Rightarrow>
                  (Inr \<lparr>tableName = args ! 2, tableDesc = args ! 3, columns = cols\<rparr>, w'))))"

text \<open>\<^verbatim>\<open>func (m *InfiniDBModule) Create\<close> (lines 53-55).\<close>

definition Create :: "lib \<Rightarrow> env \<Rightarrow> string list \<Rightarrow> world \<Rightarrow> (error + InfiniTable) \<times> world" where
  "Create L E args w = Connect L E args w"

subsection \<open>Open\<close>

text \<open>The \<^verbatim>\<open>switch\<close> of \<^verbatim>\<open>makeDataSchema\<close> (lines 324-333): the JSON type of a column.\<close>

definition jsonType :: "string \<Rightarrow> string" where
  "jsonType t =
     (if t = ''INTEGER'' then ''integer''
      else if t = ''REAL'' then ''number''
      else if t = ''TEXT'' \<or> t = ''BLOB'' then ''string''
      else ''string'')"

text \<open>The loop of \<^verbatim>\<open>makeDataSchema\<close> (lines 322-337) and the function (lines 318-356).\<close>

fun makeDataSchema_loop :: "DataSchema \<Rightarrow> Column list \<Rightarrow> DataSchema" where
  "makeDataSchema_loop s [] = s"
| "makeDataSchema_loop s (col # cols) =
     makeDataSchema_loop
       (s\<lparr>properties := (properties s)(Name col \<mapsto> (jsonType (Type col), Description col)),
          required := required s @ [Name col]\<rparr>)
       cols"

definition makeDataSchema :: "Column list \<Rightarrow> DataSchema" where
  "makeDataSchema cols = makeDataSchema_loop \<lparr>properties = Map.empty, required = []\<rparr> cols"

text \<open>\<^verbatim>\<open>os.ReadFile\<close>: the contents of a file that exists and can be read.\<close>

definition ReadFile :: "env \<Rightarrow> world \<Rightarrow> string \<Rightarrow> string option" where
  "ReadFile E w path = (if readable E path then files w path else None)"

text \<open>
  Lines 179-231 of \<^verbatim>\<open>Open\<close>: the rows are asked of the generative service, checked
  and written to the cache file. Neither a failure of \<^verbatim>\<open>json.Marshal\<close> nor one of
  \<^verbatim>\<open>os.WriteFile\<close> fails the call.
\<close>

definition generate :: "lib \<Rightarrow> env \<Rightarrow> InfiniTable \<Rightarrow> string \<Rightarrow> world \<Rightarrow> (error + InfiniCursor) \<times> world" where
  "generate L E vt cacheFile w =
     (if Getenv E ''OPENAI_API_KEY'' = '''' then (Inl ApiKeyNotSet, w)
      else
        (case renderPrompt E ''prompts/data_generation.txt''
                \<lparr>TableName = tableName vt, TableDesc = tableDesc vt\<rparr> of
           Inl err \<Rightarrow> (Inl (PromptError err), w)
         | Inr prompt \<Rightarrow>
             let req = DataRequest prompt (makeDataSchema (columns vt));
                 w1 = w\<lparr>sent := sent w @ [req]\<rparr>
             in
             (case New E req of
                Inl err \<Rightarrow> (Inl (GeneratorError err), w1)
              | Inr [] \<Rightarrow> (Inl IndexPanic, w1)
              | Inr (content # _) \<Rightarrow>
                  (case Unmarshal_data L content of
                     Inl err \<Rightarrow> (Inl (ParseError err), w1)
                   | Inr rows \<Rightarrow>
                       if length rows = 0 then (Inl EmptyData, w1)
                       else
                         let w2 =
                               (case Marshal L rows of
                                  Inl _ \<Rightarrow> w1
                                | Inr jsonData \<Rightarrow>
                                    if WriteFile E cacheFile jsonData
                                    then w1\<lparr>files := (files w1)(cacheFile \<mapsto> jsonData)\<rparr>
                                    else w1)
                         in (Inr \<lparr>curTableName = tableName vt, data = rows, pos = 0,
                                   curColumns = columns vt\<rparr>, w2)))))"

text \<open>The name of the cache file of a table (line 170).\<close>

definition cacheFileOf :: "lib \<Rightarrow> string \<Rightarrow> string" where
  "cacheFileOf L name = Join L ''.cache'' (name @ ''_data.json'')"

text \<open>\<^verbatim>\<open>func (vt *InfiniTable) Open\<close> (lines 164-232).\<close>

definition Open :: "lib \<Rightarrow> env \<Rightarrow> InfiniTable \<Rightarrow> world \<Rightarrow> (error + InfiniCursor) \<times> world" where
  "Open L E vt w =
     (let cacheDir = ''.cache'';
          w0 = (if MkdirAll E cacheDir then w\<lparr>dirs := insert cacheDir (dirs w)\<rparr> else w);
          cacheFile = cacheFileOf L (tableName vt)
      in
      (case ReadFile E w0 cacheFile of
         None \<Rightarrow> generate L E vt cacheFile w0
       | Some contents \<Rightarrow>
           (case Unmarshal_rows L contents of
              Inl _ \<Rightarrow> generate L E vt cacheFile w0
            | Inr rows \<Rightarrow>
                (Inr \<lparr>curTableName = tableName vt, data = rows, pos = 0,
                      curColumns = columns vt\<rparr>, w0))))"

subsection \<open>The cursor\<close>

text \<open>
  \<^verbatim>\<open>Close\<close>, \<^verbatim>\<open>Filter\<close> and \<^verbatim>\<open>Next\<close> (lines 241-249) always return \<^verbatim>\<open>nil\<close>; the
  model gives the cursor after the call.
\<close>

definition Close :: "InfiniCursor \<Rightarrow> InfiniCursor" where
  "Close cur = cur"

definition Filter :: "InfiniCursor \<Rightarrow> InfiniCursor" where
  "Filter cur = cur\<lparr>pos := 0\<rparr>"

definition Next :: "InfiniCursor \<Rightarrow> InfiniCursor" where
  "Next cur = cur\<lparr>pos := pos cur + 1\<rparr>"

text \<open>\<^verbatim>\<open>func (cur *InfiniCursor) EOF\<close> (lines 251-253).\<close>

definition EOF :: "InfiniCursor \<Rightarrow> bool" where
  "EOF cur = (int (length (data cur)) \<le> sint (pos cur))"

text \<open>\<^verbatim>\<open>func (cur *InfiniCursor) Rowid\<close> (lines 255-257).\<close>

definition Rowid :: "InfiniCursor \<Rightarrow> 64 word" where
  "Rowid cur = pos cur"

text \<open>What a column read hands to SQLite: one of the \<^verbatim>\<open>c.Result...\<close> calls.\<close>

datatype result =
    ResultNull
  | ResultInt64 "64 word"
  | ResultText string
  | ResultDouble real
  | ResultBlob "char list"

text \<open>
  The conversion \<^verbatim>\<open>int64(v)\<close> of a \<^verbatim>\<open>float64\<close>: the fraction is discarded
  (truncation towards zero); outside the range of \<^verbatim>\<open>int64\<close> the result is the
  implementation's.
\<close>

definition truncate_real :: "real \<Rightarrow> int" where
  "truncate_real v = (if 0 \<le> v then \<lfloor>v\<rfloor> else \<lceil>v\<rceil>)"

definition int64_of_float64 :: "lib \<Rightarrow> real \<Rightarrow> 64 word" where
  "int64_of_float64 L v =
     (if - (2 ^ 63) \<le> truncate_real v \<and> truncate_real v < 2 ^ 63
      then word_of_int (truncate_real v)
      else int64_overflow L v)"

text \<open>The \<^verbatim>\<open>switch\<close> of \<^verbatim>\<open>Column\<close> (lines 272-305) on the declared type.\<close>

definition coerce :: "lib \<Rightarrow> string \<Rightarrow> string \<Rightarrow> val \<Rightarrow> error + result" where
  "coerce L ty colName v =
     (if ty = ''INTEGER'' then
        (case v of
           Float64 f \<Rightarrow> Inr (ResultInt64 (int64_of_float64 L f))
         | Int64 i \<Rightarrow> Inr (ResultInt64 i)
         | _ \<Rightarrow> Inl (TypeMismatch colName ''integer''))
      else if ty = ''TEXT'' then
        (case v of
           String s \<Rightarrow> Inr (ResultText s)
         | _ \<Rightarrow> Inl (TypeMismatch colName ''text''))
      else if ty = ''REAL'' then
        (case v of
           Float64 f \<Rightarrow> Inr (ResultDouble f)
         | _ \<Rightarrow> Inl (TypeMismatch colName ''real''))
      else if ty = ''BLOB'' then
        (case v of
           String s \<Rightarrow> Inr (ResultBlob s)
         | Bytes b \<Rightarrow> Inr (ResultBlob b)
         | _ \<Rightarrow> Inl (TypeMismatch colName ''blob''))
      else Inl (UnsupportedType ty))"

text \<open>
  \<^verbatim>\<open>func (cur *InfiniCursor) Column\<close> (lines 259-306). The method has a pointer
  receiver, so the model returns the cursor after the call beside the result.
\<close>

definition Column :: "lib \<Rightarrow> InfiniCursor \<Rightarrow> 64 word \<Rightarrow> (error + result) \<times> InfiniCursor" where
  "Column L cur col =
     (if sint (pos cur) < 0 \<or> int (length (data cur)) \<le> sint (pos cur)
         \<or> sint col < 0 \<or> int (length (curColumns cur)) \<le> sint col
      then (Inl CursorOutOfRange, cur)
      else
        let row = data cur ! nat (sint (pos cur));
            colName = Name (curColumns cur ! nat (sint col))
        in
        (case row colName of
           None \<Rightarrow> (Inr ResultNull, cur)
         | Some v \<Rightarrow> (coerce L (Type (curColumns cur ! nat (sint col))) colName v, cur)))"

subsection \<open>Runs of the module\<close>

text \<open>
  \<open>reaches L w w'\<close>: the state \<open>w'\<close> is reached from \<open>w\<close> by any number of calls of
  \<open>Connect\<close> and \<open>Open\<close>, each in an environment of its own.
\<close>

inductive reaches :: "lib \<Rightarrow> world \<Rightarrow> world \<Rightarrow> bool" for L :: lib and w :: world where
  reaches_refl: "reaches L w w"
| reaches_Connect: "reaches L w w1 \<Longrightarrow> snd (Connect L E args w1) = w2 \<Longrightarrow> reaches L w w2"
| reaches_Open: "reaches L w w1 \<Longrightarrow> snd (Open L E vt w1) = w2 \<Longrightarrow> reaches L w w2"

text \<open>
  The same table opened once in each environment of a list, one call after the other:
  the results of the calls and the state after the last.
\<close>

fun Open_all :: "lib \<Rightarrow> env list \<Rightarrow> InfiniTable \<Rightarrow> world \<Rightarrow> (error + InfiniCursor) list \<times> world" where
  "Open_all L [] vt w = ([], w)"
| "Open_all L (E # Es) vt w =
     (case Open L E vt w of
        (r, w1) \<Rightarrow> (case Open_all L Es vt w1 of (rs, w2) \<Rightarrow> (r # rs, w2)))"

subsection \<open>Well-formed column lists\<close>

text \<open>
  The column lists that validation accepts, apart from the empty one: every name is
  non-empty, every type is valid and no name occurs twice.
\<close>

definition columns_ok :: "Column list \<Rightarrow> bool" where
  "columns_ok cols =
     ((\<forall>c \<in> set cols. Name c \<noteq> '''' \<and> validTypes (Type c)) \<and> distinct (map Name cols))"

subsection \<open>Example values\<close>

text \<open>
  Concrete inputs on which the theorems below are evaluated: a three-column schema, three
  rows as the JSON decoder would deliver them, a library that decodes a few fixed texts
  (short names that stand for JSON documents: \<open>schema\<close> for the three columns,
  \<open>badtype\<close> for one column typed \<open>VARCHAR\<close>, \<open>rows\<close> and \<open>stored\<close> for the three
  rows, \<open>norows\<close> for an answer without rows), an environment in which the generative
  service answers, one in which nothing outside the process is available, and the
  initial state.
\<close>

definition col :: "string \<Rightarrow> string \<Rightarrow> Column" where
  "col n t = \<lparr>Name = n, Type = t, Constraints = '''', Description = ''''\<rparr>"

definition exampleColumns :: "Column list" where
  "exampleColumns =
     [\<lparr>Name = ''id'', Type = ''INTEGER'', Constraints = ''PRIMARY KEY'', Description = ''key''\<rparr>,
      col ''age'' ''INTEGER'',
      col ''name'' ''TEXT'']"

definition exampleRows :: "row list" where
  "exampleRows =
     [[''id'' \<mapsto> Float64 1, ''age'' \<mapsto> Float64 30, ''name'' \<mapsto> String ''Ada''],
      [''id'' \<mapsto> Float64 2, ''age'' \<mapsto> Float64 30.5, ''name'' \<mapsto> NilVal],
      [''id'' \<mapsto> Float64 3, ''age'' \<mapsto> String ''thirty'']]"

definition exampleLib :: lib where
  "exampleLib =
     \<lparr>Unmarshal_schema = (\<lambda>s. if s = ''schema'' then Inr exampleColumns
                               else if s = ''badtype'' then Inr [col ''id'' ''VARCHAR'']
                               else Inl ''syntax error''),
      Unmarshal_rows = (\<lambda>s. if s = ''stored'' then Inr exampleRows else Inl ''syntax error''),
      Unmarshal_data = (\<lambda>s. if s = ''rows'' then Inr exampleRows
                             else if s = ''norows'' then Inr []
                             else Inl ''syntax error''),
      Marshal = (\<lambda>rows. Inr ''stored''),
      Join = (\<lambda>dir file. dir @ ''/'' @ file),
      int64_overflow = (\<lambda>v. - (2 ^ 63))\<rparr>"

definition exampleEnv :: env where
  "exampleEnv =
     \<lparr>Getenv = (\<lambda>v. if v = ''OPENAI_API_KEY'' then ''sk-example'' else ''''),
      renderPrompt = (\<lambda>path d. Inr (path @ '' '' @ TableName d @ '' '' @ TableDesc d)),
      New = (\<lambda>req. case req of SchemaRequest p \<Rightarrow> Inr [''schema'']
                              | DataRequest p s \<Rightarrow> Inr [''rows'']),
      DeclareVTab = (\<lambda>schema. None),
      MkdirAll = (\<lambda>dir. True),
      readable = (\<lambda>path. True),
      WriteFile = (\<lambda>path contents. True)\<rparr>"

definition offlineEnv :: env where
  "offlineEnv =
     \<lparr>Getenv = (\<lambda>v. ''''),
      renderPrompt = (\<lambda>path d. Inl ''no template''),
      New = (\<lambda>req. Inl ''connection refused''),
      DeclareVTab = (\<lambda>schema. None),
      MkdirAll = (\<lambda>dir. False),
      readable = (\<lambda>path. True),
      WriteFile = (\<lambda>path contents. False)\<rparr>"

definition emptyWorld :: world where
  "emptyWorld = \<lparr>schemaCache = Map.empty, dirs = {}, files = Map.empty, sent = []\<rparr>"

definition exampleArgs :: "string list" where
  "exampleArgs = [''infinidb'', ''main'', ''people'', ''the people of a town'']"

definition exampleTable :: InfiniTable where
  "exampleTable =
     \<lparr>tableName = ''people'', tableDesc = ''the people of a town'', columns = exampleColumns\<rparr>"

definition exampleCursor :: InfiniCursor where
  "exampleCursor =
     \<lparr>curTableName = ''people'', data = exampleRows, pos = 0, curColumns = exampleColumns\<rparr>"

definition emptyAnswerEnv :: env where
  "emptyAnswerEnv = exampleEnv\<lparr>New := (\<lambda>req. Inr [''norows''])\<rparr>"

definition badTypeEnv :: env where
  "badTypeEnv = exampleEnv\<lparr>New := (\<lambda>req. Inr [''badtype''])\<rparr>"

definition examplePrompt :: string where
  "examplePrompt = ''prompts/schema_generation.txt people the people of a town''"

definition cachedWorld :: world where
  "cachedWorld =
     \<lparr>schemaCache = [''people'' \<mapsto> exampleColumns], dirs = {}, files = Map.empty,
      sent = [SchemaRequest examplePrompt]\<rparr>"

definition materializedWorld :: world where
  "materializedWorld = snd (Open exampleLib exampleEnv exampleTable emptyWorld)"

text \<open>
  A cursor over two more rows for the \<open>INTEGER\<close> column \<open>age\<close>: a negative number with
  a fraction, and \<open>2 ^ 63\<close>, the least number above the range of \<^verbatim>\<open>int64\<close>.
\<close>

definition extremeCursor :: InfiniCursor where
  "extremeCursor =
     \<lparr>curTableName = ''people'',
      data = [[''age'' \<mapsto> Float64 (- 30.5)], [''age'' \<mapsto> Float64 (2 ^ 63)]],
      pos = 0, curColumns = exampleColumns\<rparr>"

section \<open>Properties\<close>

subsection \<open>Arguments of Connect\<close>

text \<open>
  Claim C10. \<open>Connect\<close> with fewer than four module arguments fails with the error
  "missing table name argument": the state is returned as it was, so the schema cache
  is not touched and no request is sent to the generative service.
\<close>

theorem Connect_missing_args:
  "length args < 4 \<Longrightarrow>
     Connect L E args w = (Inl MissingArgs, w)
     \<and> schemaCache (snd (Connect L E args w)) = schemaCache w
     \<and> sent (snd (Connect L E args w)) = sent w"
  by (simp add: Connect_def)

theorem Connect_missing_args_witness:
  "length [''infinidb'', ''main'', ''people''] < 4
   \<and> Connect exampleLib exampleEnv [''infinidb'', ''main'', ''people''] emptyWorld
       = (Inl MissingArgs, emptyWorld)"
  using Connect_missing_args [of "[''infinidb'', ''main'', ''people'']" exampleLib exampleEnv emptyWorld]
  by simp

subsection \<open>Validation of the generated schema\<close>

lemma validTypes_iff:
  "validTypes t \<longleftrightarrow> t \<in> {''INTEGER'', ''TEXT'', ''REAL'', ''BLOB''}"
  by (simp add: validTypes_def)

text \<open>
  The loop passes over a well-formed prefix and carries its names along in
  \<^verbatim>\<open>seenNames\<close>.
\<close>

lemma validate_loop_append:
  "(\<forall>c \<in> set pre. Name c \<noteq> '''' \<and> \<not> seen (Name c) \<and> validTypes (Type c)) \<Longrightarrow>
   distinct (map Name pre) \<Longrightarrow>
   validate_loop seen (pre @ rest) =
     validate_loop (\<lambda>n. seen n \<or> n \<in> Name ` set pre) rest"
proof (induction pre arbitrary: seen)
  case Nil
  then show ?case by simp
next
  case (Cons p pre)
  have upd: "(\<lambda>n. (seen(Name p := True)) n \<or> n \<in> Name ` set pre)
             = (\<lambda>n. seen n \<or> n \<in> Name ` set (p # pre))"
    by (rule ext) auto
  from Cons.prems have fresh: "\<forall>c \<in> set pre. Name c \<noteq> Name p"
    by (metis distinct.simps(2) imageI list.simps(9) list.set_map)
  from Cons.prems fresh have step:
    "validate_loop (seen(Name p := True)) (pre @ rest) =
       validate_loop (\<lambda>n. (seen(Name p := True)) n \<or> n \<in> Name ` set pre) rest"
    by (intro Cons.IH) simp_all
  from Cons.prems have "validate_loop seen ((p # pre) @ rest)
      = validate_loop (seen(Name p := True)) (pre @ rest)"
    by simp
  then show ?case
    by (simp only: step upd)
qed

lemma validate_loop_Inr:
  "validate_loop seen cols = Inr () \<longleftrightarrow>
     (\<forall>c \<in> set cols. Name c \<noteq> '''' \<and> \<not> seen (Name c) \<and> validTypes (Type c))
     \<and> distinct (map Name cols)"
proof (induction cols arbitrary: seen)
  case Nil
  then show ?case by simp
next
  case (Cons c cols)
  have fresh: "Name c \<notin> Name ` set cols \<longleftrightarrow> (\<forall>d \<in> set cols. Name d \<noteq> Name c)"
    by (metis (no_types, lifting) image_iff)
  show ?case
    by (simp add: Cons.IH fresh) blast
qed

text \<open>The two errors of the loop, and the column that causes each.\<close>

lemma validate_loop_Inl:
  "validate_loop seen cols = Inl e \<Longrightarrow>
     (\<exists>c \<in> set cols. e = DuplicateColumn (Name c))
     \<or> (\<exists>c \<in> set cols. e = InvalidType (Type c) (Name c) \<and> \<not> validTypes (Type c))"
proof (induction cols arbitrary: seen)
  case Nil
  then show ?case by simp
next
  case (Cons c cols)
  show ?case
  proof (cases "Name c = '''' \<or> seen (Name c)")
    case True
    with Cons.prems show ?thesis by auto
  next
    case False
    note nm = this
    show ?thesis
    proof (cases "validTypes (Type c)")
      case False
      with nm Cons.prems show ?thesis by auto
    next
      case True
      with nm Cons.prems have "validate_loop (seen(Name c := True)) cols = Inl e"
        by simp
      from Cons.IH [OF this] show ?thesis by auto
    qed
  qed
qed

lemma validate_loop_names_ok:
  "(\<forall>c \<in> set cols. Name c \<noteq> '''' \<and> \<not> seen (Name c)) \<Longrightarrow> distinct (map Name cols) \<Longrightarrow>
     validate_loop seen cols \<noteq> Inl (DuplicateColumn n)"
proof (induction cols arbitrary: seen)
  case Nil
  then show ?case by simp
next
  case (Cons c cols)
  show ?case
  proof (cases "validTypes (Type c)")
    case False
    with Cons.prems show ?thesis by simp
  next
    case True
    from Cons.prems have fresh: "\<forall>d \<in> set cols. Name d \<noteq> Name c"
      by (metis distinct.simps(2) imageI list.simps(9) list.set_map)
    from Cons.prems fresh
    have "validate_loop (seen(Name c := True)) cols \<noteq> Inl (DuplicateColumn n)"
      by (intro Cons.IH) simp_all
    with True Cons.prems show ?thesis by simp
  qed
qed

text \<open>
  Claim C2, as the code has it. A response with no column fails with
  \<open>EmptySchema\<close>. Otherwise the columns are checked in their order and the first
  malformed column decides the error: after a well-formed prefix \<open>pre\<close>, a column \<open>c\<close>
  whose name is empty or repeats a name of \<open>pre\<close> fails with \<open>DuplicateColumn\<close>, and a
  column with a fresh name whose type is outside INTEGER, TEXT, REAL, BLOB fails with
  \<open>InvalidType\<close>, whatever follows in \<open>post\<close>. So a response whose types are all valid
  and that has an empty or repeated name fails with \<open>DuplicateColumn\<close>, and a response
  whose names are non-empty and distinct and that has a type outside the four fails with
  \<open>InvalidType\<close>. Validation succeeds exactly on the non-empty well-formed lists.
\<close>

theorem validate_first_malformed_column:
  "(validate cols = Inl EmptySchema \<longleftrightarrow> cols = [])
   \<and> (columns_ok pre \<and> (Name c = '''' \<or> Name c \<in> Name ` set pre)
        \<longrightarrow> validate (pre @ c # post) = Inl (DuplicateColumn (Name c)))
   \<and> (columns_ok pre \<and> Name c \<noteq> '''' \<and> Name c \<notin> Name ` set pre \<and> \<not> validTypes (Type c)
        \<longrightarrow> validate (pre @ c # post) = Inl (InvalidType (Type c) (Name c)))
   \<and> (cols \<noteq> [] \<and> (\<forall>d \<in> set cols. validTypes (Type d)) \<and> \<not> columns_ok cols
        \<longrightarrow> (\<exists>d \<in> set cols. validate cols = Inl (DuplicateColumn (Name d))))
   \<and> (cols \<noteq> [] \<and> (\<forall>d \<in> set cols. Name d \<noteq> '''') \<and> distinct (map Name cols)
          \<and> \<not> columns_ok cols
        \<longrightarrow> (\<exists>d \<in> set cols. validate cols = Inl (InvalidType (Type d) (Name d))))
   \<and> (validate cols = Inr () \<longleftrightarrow> cols \<noteq> [] \<and> columns_ok cols)
   \<and> (validTypes t \<longleftrightarrow> t \<in> {''INTEGER'', ''TEXT'', ''REAL'', ''BLOB''})"
proof -
  have empty: "validate cols = Inl EmptySchema \<longleftrightarrow> cols = []"
  proof
    assume e: "validate cols = Inl EmptySchema"
    show "cols = []"
    proof (rule ccontr)
      assume "cols \<noteq> []"
      with e have "validate_loop (\<lambda>_. False) cols = Inl EmptySchema"
        by (simp add: validate_def)
      from validate_loop_Inl [OF this] show False by auto
    qed
  next
    assume "cols = []"
    then show "validate cols = Inl EmptySchema" by (simp add: validate_def)
  qed
  have at: "validate (pre @ c # post) =
              validate_loop (\<lambda>n. n \<in> Name ` set pre) (c # post)" if "columns_ok pre"
    using that validate_loop_append [of pre "\<lambda>_. False" "c # post"]
    by (simp add: validate_def columns_ok_def)
  have dup: "validate (pre @ c # post) = Inl (DuplicateColumn (Name c))"
    if "columns_ok pre" "Name c = '''' \<or> Name c \<in> Name ` set pre"
    using that by (auto simp: at)
  have ty: "validate (pre @ c # post) = Inl (InvalidType (Type c) (Name c))"
    if "columns_ok pre" "Name c \<noteq> ''''" "Name c \<notin> Name ` set pre" "\<not> validTypes (Type c)"
    using that by (simp add: at)
  have ok: "validate cols = Inr () \<longleftrightarrow> cols \<noteq> [] \<and> columns_ok cols"
    by (auto simp: validate_def validate_loop_Inr columns_ok_def)
  have fails: "\<exists>e. validate_loop (\<lambda>_. False) cols = Inl e \<and> validate cols = Inl e"
    if "cols \<noteq> []" "\<not> columns_ok cols"
  proof (cases "validate cols")
    case (Inl e)
    with that show ?thesis by (simp add: validate_def)
  next
    case (Inr u)
    with ok that show ?thesis by simp
  qed
  have names: "\<exists>d \<in> set cols. validate cols = Inl (DuplicateColumn (Name d))"
    if "cols \<noteq> []" "\<forall>d \<in> set cols. validTypes (Type d)" "\<not> columns_ok cols"
  proof -
    from fails [OF that(1,3)] obtain e
      where e: "validate_loop (\<lambda>_. False) cols = Inl e" "validate cols = Inl e"
      by blast
    from validate_loop_Inl [OF e(1)] that(2) e(2) show ?thesis
      by auto
  qed
  have types: "\<exists>d \<in> set cols. validate cols = Inl (InvalidType (Type d) (Name d))"
    if "cols \<noteq> []" "\<forall>d \<in> set cols. Name d \<noteq> ''''" "distinct (map Name cols)"
      "\<not> columns_ok cols"
  proof -
    from fails [OF that(1,4)] obtain e
      where e: "validate_loop (\<lambda>_. False) cols = Inl e" "validate cols = Inl e"
      by blast
    have "e \<noteq> DuplicateColumn n" for n
      using validate_loop_names_ok [of cols "\<lambda>_. False" n] that(2,3) e(1) by simp
    with validate_loop_Inl [OF e(1)] e(2) show ?thesis
      by auto
  qed
  show ?thesis
  proof (intro conjI impI)
    show "validate cols = Inl EmptySchema \<longleftrightarrow> cols = []"
      by (rule empty)
    show "validate (pre @ c # post) = Inl (DuplicateColumn (Name c))"
      if "columns_ok pre \<and> (Name c = [] \<or> Name c \<in> Name ` set pre)"
      using that dup by simp
    show "validate (pre @ c # post) = Inl (InvalidType (Type c) (Name c))"
      if "columns_ok pre \<and> Name c \<noteq> [] \<and> Name c \<notin> Name ` set pre \<and> \<not> validTypes (Type c)"
      using that ty by simp
    show "\<exists>d \<in> set cols. validate cols = Inl (DuplicateColumn (Name d))"
      if "cols \<noteq> [] \<and> (\<forall>d \<in> set cols. validTypes (Type d)) \<and> \<not> columns_ok cols"
      using that names by simp
    show "\<exists>d \<in> set cols. validate cols = Inl (InvalidType (Type d) (Name d))"
      if "cols \<noteq> [] \<and> (\<forall>d \<in> set cols. Name d \<noteq> []) \<and> distinct (map Name cols)
          \<and> \<not> columns_ok cols"
      using that types by simp
    show "validate cols = Inr () \<longleftrightarrow> cols \<noteq> [] \<and> columns_ok cols"
      by (rule ok)
    show "validTypes t \<longleftrightarrow> t \<in> {''INTEGER'', ''TEXT'', ''REAL'', ''BLOB''}"
      by (rule validTypes_iff)
  qed
qed

text \<open>
  The theorem on the generator responses of the specification: two columns named
  \<open>id\<close>, a column typed \<open>VARCHAR\<close>, no column, and a well-formed schema.
\<close>

theorem validate_first_malformed_column_witness:
  "columns_ok [col ''id'' ''INTEGER'']
   \<and> validate ([col ''id'' ''INTEGER''] @ col ''id'' ''TEXT'' # []) = Inl (DuplicateColumn ''id'')
   \<and> \<not> validTypes ''VARCHAR''
   \<and> validate ([col ''id'' ''INTEGER''] @ col ''age'' ''VARCHAR'' # [col ''id'' ''TEXT''])
       = Inl (InvalidType ''VARCHAR'' ''age'')
   \<and> validate [col ''id'' ''INTEGER'', col ''name'' ''TEXT''] = Inr ()
   \<and> validate [] = Inl EmptySchema"
proof -
  have ok: "columns_ok [col ''id'' ''INTEGER'']"
    by (simp add: columns_ok_def col_def validTypes_def)
  have ok2: "columns_ok [col ''id'' ''INTEGER'', col ''name'' ''TEXT'']"
    by (simp add: columns_ok_def col_def validTypes_def)
  have bad: "\<not> validTypes ''VARCHAR''"
    by (simp add: validTypes_def)
  show ?thesis
    using ok ok2 bad
      validate_first_malformed_column
        [of "[]" "[col ''id'' ''INTEGER'']" "col ''id'' ''TEXT''" "[]" "''INTEGER''"]
      validate_first_malformed_column
        [of "[col ''id'' ''INTEGER'', col ''name'' ''TEXT'']" "[col ''id'' ''INTEGER'']"
            "col ''age'' ''VARCHAR''" "[col ''id'' ''TEXT'']" "''INTEGER''"]
    by (simp add: col_def)
qed

text \<open>
  The claim as it is written fails where both defects occur: the response
  \<open>[id VARCHAR, id TEXT]\<close> repeats a name, and is rejected at its first column with
  \<open>InvalidType\<close>; the response \<open>[id TEXT, id VARCHAR]\<close> has a type outside the four,
  and is rejected at its second column with \<open>DuplicateColumn\<close>.
\<close>

theorem validate_repeated_name_counterexample:
  "validate [col ''id'' ''VARCHAR'', col ''id'' ''TEXT''] = Inl (InvalidType ''VARCHAR'' ''id'')
   \<and> validate [col ''id'' ''VARCHAR'', col ''id'' ''TEXT''] \<noteq> Inl (DuplicateColumn ''id'')
   \<and> validate [col ''id'' ''TEXT'', col ''id'' ''VARCHAR''] = Inl (DuplicateColumn ''id'')
   \<and> validate [col ''id'' ''TEXT'', col ''id'' ''VARCHAR''] \<noteq> Inl (InvalidType ''VARCHAR'' ''id'')"
  by (simp add: validate_def col_def validTypes_def)

subsection \<open>What one call does to the state\<close>

lemma resolve_hit:
  "schemaCache w name = Some cached \<Longrightarrow> resolve L E name desc w = (Inr cached, w)"
  by (simp add: resolve_def)

text \<open>
  What the resolution does to the state: it never touches the disk, it sends at most
  one request, and it stores nothing when it fails.
\<close>

lemma resolve_world:
  "files (snd (resolve L E name desc w)) = files w
   \<and> dirs (snd (resolve L E name desc w)) = dirs w
   \<and> length (sent (snd (resolve L E name desc w))) \<le> length (sent w) + 1"
  by (simp add: resolve_def Let_def split: option.split sum.split list.split)

lemma resolve_failure:
  "resolve L E name desc w = (Inl e, w') \<Longrightarrow> schemaCache w' = schemaCache w"
  by (auto simp: resolve_def Let_def split: option.splits if_splits sum.splits list.splits)

text \<open>A successful resolution returns the entry of the cache after the call.\<close>

lemma resolve_success:
  "resolve L E name desc w = (Inr cols, w') \<Longrightarrow>
     schemaCache w' = (schemaCache w)(name \<mapsto> cols)
     \<and> (schemaCache w name = Some cols \<and> w' = w
         \<or> schemaCache w name = None \<and> validate cols = Inr ()
            \<and> (\<exists>content. Unmarshal_schema L content = Inr cols))"
  by (auto simp: resolve_def Let_def split: option.splits if_splits sum.splits list.splits)

lemma resolve_keeps_entries:
  assumes "schemaCache w n = Some c"
  shows "schemaCache (snd (resolve L E name desc w)) n = Some c"
proof (cases "resolve L E name desc w")
  case (Pair r w')
  show ?thesis
  proof (cases r)
    case (Inl e)
    with Pair resolve_failure [of L E name desc w e w'] assms show ?thesis by simp
  next
    case (Inr cols)
    with Pair resolve_success [of L E name desc w cols w'] assms show ?thesis by auto
  qed
qed

lemma Connect_state:
  "snd (Connect L E args w) = w
   \<or> (4 \<le> length args \<and> snd (Connect L E args w) = snd (resolve L E (args ! 2) (args ! 3) w))"
  by (simp add: Connect_def split: prod.split sum.split option.split)

lemma Connect_keeps_entries:
  "schemaCache w n = Some c \<Longrightarrow> schemaCache (snd (Connect L E args w)) n = Some c"
  using Connect_state [of L E args w] resolve_keeps_entries [of w n c L E "args ! 2" "args ! 3"]
  by auto

lemma Connect_success:
  "Connect L E args w = (Inr t, w') \<Longrightarrow>
     4 \<le> length args
     \<and> resolve L E (args ! 2) (args ! 3) w = (Inr (columns t), w')
     \<and> t = \<lparr>tableName = args ! 2, tableDesc = args ! 3, columns = columns t\<rparr>"
  by (auto simp: Connect_def split: if_splits prod.splits sum.splits option.splits)

lemma Connect_hit:
  "4 \<le> length args \<Longrightarrow> schemaCache w (args ! 2) = Some cached \<Longrightarrow>
     Connect L E args w =
       (case DeclareVTab E (schemaString cached) of
          Some err \<Rightarrow> Inl (DeclareError err)
        | None \<Rightarrow> Inr \<lparr>tableName = args ! 2, tableDesc = args ! 3, columns = cached\<rparr>, w)"
  by (simp add: Connect_def resolve_hit split: option.split)

lemma Connect_failure:
  "Connect L E args w = (Inl e, w') \<Longrightarrow>
     (\<exists>m. e = DeclareError m) \<or> w' = w \<or> resolve L E (args ! 2) (args ! 3) w = (Inl e, w')"
  by (auto simp: Connect_def split: if_splits prod.splits sum.splits option.splits)

lemma generate_world:
  "schemaCache (snd (generate L E vt path w)) = schemaCache w
   \<and> dirs (snd (generate L E vt path w)) = dirs w
   \<and> length (sent (snd (generate L E vt path w))) \<le> length (sent w) + 1"
  by (simp add: generate_def Let_def split: sum.split list.split)

lemma generate_failure:
  "generate L E vt path w = (Inl e, w') \<Longrightarrow> files w' = files w"
  by (auto simp: generate_def Let_def split: if_splits sum.splits list.splits)

lemma generate_success:
  "generate L E vt path w = (Inr cur, w') \<Longrightarrow>
     cur = \<lparr>curTableName = tableName vt, data = data cur, pos = 0, curColumns = columns vt\<rparr>
     \<and> data cur \<noteq> []
     \<and> Getenv E ''OPENAI_API_KEY'' \<noteq> ''''
     \<and> (\<exists>p content rest.
           New E (DataRequest p (makeDataSchema (columns vt))) = Inr (content # rest)
           \<and> Unmarshal_data L content = Inr (data cur)
           \<and> sent w' = sent w @ [DataRequest p (makeDataSchema (columns vt))])
     \<and> (files w' = files w
         \<or> (\<exists>js. Marshal L (data cur) = Inr js \<and> files w' = (files w)(path \<mapsto> js)))
     \<and> (\<forall>js. Marshal L (data cur) = Inr js \<and> WriteFile E path js \<longrightarrow> files w' path = Some js)"
  by (auto simp: generate_def Let_def split: if_splits sum.splits list.splits)

lemma ReadFile_MkdirAll:
  "ReadFile E (if b then w\<lparr>dirs := d\<rparr> else w) path = ReadFile E w path"
  by (simp add: ReadFile_def)

lemma Open_world:
  "schemaCache (snd (Open L E vt w)) = schemaCache w"
  using generate_world [of L E vt]
  by (simp add: Open_def Let_def split: option.split sum.split)

lemma Open_hit:
  assumes "readable E (cacheFileOf L (tableName vt))"
    and "files w (cacheFileOf L (tableName vt)) = Some contents"
    and "Unmarshal_rows L contents = Inr rows"
  shows "fst (Open L E vt w)
       = Inr \<lparr>curTableName = tableName vt, data = rows, pos = 0, curColumns = columns vt\<rparr>"
    and "sent (snd (Open L E vt w)) = sent w"
    and "files (snd (Open L E vt w)) = files w"
  using assms by (simp_all add: Open_def Let_def ReadFile_def)

lemma Open_miss:
  assumes "ReadFile E w (cacheFileOf L (tableName vt)) = None
     \<or> (\<exists>contents err. ReadFile E w (cacheFileOf L (tableName vt)) = Some contents
           \<and> Unmarshal_rows L contents = Inl err)"
  shows "Open L E vt w =
     generate L E vt (cacheFileOf L (tableName vt))
       (if MkdirAll E ''.cache'' then w\<lparr>dirs := insert ''.cache'' (dirs w)\<rparr> else w)"
  using assms by (auto simp: Open_def Let_def ReadFile_MkdirAll)

lemma Open_cases:
  "(\<exists>contents rows. ReadFile E w (cacheFileOf L (tableName vt)) = Some contents
        \<and> Unmarshal_rows L contents = Inr rows
        \<and> fst (Open L E vt w)
            = Inr \<lparr>curTableName = tableName vt, data = rows, pos = 0, curColumns = columns vt\<rparr>
        \<and> files (snd (Open L E vt w)) = files w
        \<and> sent (snd (Open L E vt w)) = sent w)
   \<or> (\<exists>w0. files w0 = files w \<and> sent w0 = sent w
        \<and> Open L E vt w = generate L E vt (cacheFileOf L (tableName vt)) w0)"
proof (cases "ReadFile E w (cacheFileOf L (tableName vt))")
  case None
  then have "Open L E vt w =
     generate L E vt (cacheFileOf L (tableName vt))
       (if MkdirAll E ''.cache'' then w\<lparr>dirs := insert ''.cache'' (dirs w)\<rparr> else w)"
    by (intro Open_miss) simp
  moreover have "files (if MkdirAll E ''.cache'' then w\<lparr>dirs := insert ''.cache'' (dirs w)\<rparr> else w)
      = files w"
    "sent (if MkdirAll E ''.cache'' then w\<lparr>dirs := insert ''.cache'' (dirs w)\<rparr> else w)
      = sent w"
    by simp_all
  ultimately show ?thesis by blast
next
  case (Some contents)
  show ?thesis
  proof (cases "Unmarshal_rows L contents")
    case (Inl err)
    with Some have "Open L E vt w =
       generate L E vt (cacheFileOf L (tableName vt))
         (if MkdirAll E ''.cache'' then w\<lparr>dirs := insert ''.cache'' (dirs w)\<rparr> else w)"
      by (intro Open_miss) simp
    moreover have "files (if MkdirAll E ''.cache'' then w\<lparr>dirs := insert ''.cache'' (dirs w)\<rparr> else w)
        = files w"
      "sent (if MkdirAll E ''.cache'' then w\<lparr>dirs := insert ''.cache'' (dirs w)\<rparr> else w)
        = sent w"
      by simp_all
    ultimately show ?thesis by blast
  next
    case (Inr rows)
    from Some have rd: "readable E (cacheFileOf L (tableName vt))"
      and f: "files w (cacheFileOf L (tableName vt)) = Some contents"
      by (simp_all add: ReadFile_def split: if_splits)
    from Open_hit [OF rd f Inr] Some Inr show ?thesis by blast
  qed
qed

lemma Open_all_hits:
  assumes "files w (cacheFileOf L (tableName vt)) = Some contents"
    and "Unmarshal_rows L contents = Inr rows"
    and "\<forall>E \<in> set Es. readable E (cacheFileOf L (tableName vt))"
  shows "fst (Open_all L Es vt w)
       = replicate (length Es)
           (Inr \<lparr>curTableName = tableName vt, data = rows, pos = 0, curColumns = columns vt\<rparr>)
     \<and> sent (snd (Open_all L Es vt w)) = sent w
     \<and> files (snd (Open_all L Es vt w)) = files w"
  using assms
proof (induction Es arbitrary: w)
  case Nil
  then show ?case by simp
next
  case (Cons E Es)
  obtain r w1 where o: "Open L E vt w = (r, w1)"
    by (cases "Open L E vt w")
  from Cons.prems have rd: "readable E (cacheFileOf L (tableName vt))"
    by simp
  from Open_hit [OF rd Cons.prems(1,2)] o
  have r: "r = Inr \<lparr>curTableName = tableName vt, data = rows, pos = 0, curColumns = columns vt\<rparr>"
    and s: "sent w1 = sent w" and f: "files w1 = files w"
    by simp_all
  from Cons.prems f have "files w1 (cacheFileOf L (tableName vt)) = Some contents"
    by simp
  from Cons.IH [OF this Cons.prems(2)] Cons.prems(3)
  have "fst (Open_all L Es vt w1)
       = replicate (length Es)
           (Inr \<lparr>curTableName = tableName vt, data = rows, pos = 0, curColumns = columns vt\<rparr>)
     \<and> sent (snd (Open_all L Es vt w1)) = sent w1
     \<and> files (snd (Open_all L Es vt w1)) = files w1"
    by simp
  with o r s f show ?case
    by (simp add: split_beta)
qed

lemma reaches_keeps_entries:
  "reaches L w w' \<Longrightarrow> schemaCache w n = Some c \<Longrightarrow> schemaCache w' n = Some c"
proof (induction rule: reaches.induct)
  case reaches_refl
  then show ?case by simp
next
  case (reaches_Connect w1 E args w2)
  then show ?case using Connect_keeps_entries by blast
next
  case (reaches_Open w1 E vt w2)
  then show ?case using Open_world by metis
qed

lemma example_validate:
  "validate exampleColumns = Inr ()"
  by (simp add: validate_def exampleColumns_def col_def validTypes_def)

lemma example_Connect:
  "Connect exampleLib exampleEnv exampleArgs emptyWorld = (Inr exampleTable, cachedWorld)"
  by (simp add: Connect_def resolve_def example_validate exampleLib_def exampleEnv_def
      exampleArgs_def emptyWorld_def exampleTable_def cachedWorld_def examplePrompt_def)

lemma example_Open:
  "Open exampleLib exampleEnv exampleTable emptyWorld
     = (Inr exampleCursor,
        \<lparr>schemaCache = Map.empty, dirs = {''.cache''},
         files = [''.cache/people_data.json'' \<mapsto> ''stored''],
         sent = [DataRequest ''prompts/data_generation.txt people the people of a town''
                   (makeDataSchema exampleColumns)]\<rparr>)"
  by (simp add: Open_def generate_def ReadFile_def cacheFileOf_def Let_def exampleLib_def
      exampleEnv_def exampleTable_def exampleCursor_def emptyWorld_def exampleRows_def)

subsection \<open>Connect and the schema cache\<close>

text \<open>
  Claim C1, as the code has it. Let the two calls carry at least four arguments and
  the same table name. If the name is in the schema cache, the resolution returns the
  cached columns and \<^verbatim>\<open>Connect\<close> leaves the whole state as it was, so no request is
  sent; the table it returns has the cached columns. If a call of \<^verbatim>\<open>Connect\<close> has
  succeeded with the table \<open>t\<close>, it has sent at most one request, and after any further
  calls of the module a call for the same name, in any environment, sends no request
  and resolves to the columns of \<open>t\<close>; the table it returns (it returns one when SQLite
  accepts the declaration) has the columns of \<open>t\<close>.
\<close>

theorem Connect_resolves_once:
  assumes "4 \<le> length args" and "4 \<le> length args'" and "args' ! 2 = args ! 2"
  shows
    "(schemaCache w (args ! 2) = Some cached \<longrightarrow>
        resolve L E (args ! 2) (args ! 3) w = (Inr cached, w)
        \<and> snd (Connect L E args w) = w
        \<and> (\<forall>t. fst (Connect L E args w) = Inr t \<longrightarrow> columns t = cached))
     \<and> (Connect L E args w = (Inr t, w1) \<and> reaches L w1 w2 \<longrightarrow>
        length (sent w1) \<le> length (sent w) + 1
        \<and> resolve L E' (args' ! 2) (args' ! 3) w2 = (Inr (columns t), w2)
        \<and> snd (Connect L E' args' w2) = w2
        \<and> sent (snd (Connect L E' args' w2)) = sent w2
        \<and> (\<forall>t'. fst (Connect L E' args' w2) = Inr t' \<longrightarrow> columns t' = columns t)
        \<and> (DeclareVTab E' (schemaString (columns t)) = None \<longrightarrow>
             fst (Connect L E' args' w2)
               = Inr \<lparr>tableName = args' ! 2, tableDesc = args' ! 3, columns = columns t\<rparr>))"
proof (intro conjI impI)
  assume hit: "schemaCache w (args ! 2) = Some cached"
  show "resolve L E (args ! 2) (args ! 3) w = (Inr cached, w)"
    using hit by (rule resolve_hit)
  show "snd (Connect L E args w) = w"
    by (simp add: Connect_hit [OF assms(1) hit])
  show "\<forall>t. fst (Connect L E args w) = Inr t \<longrightarrow> columns t = cached"
    by (auto simp: Connect_hit [OF assms(1) hit] split: option.splits)
next
  assume run: "Connect L E args w = (Inr t, w1) \<and> reaches L w1 w2"
  then have first: "resolve L E (args ! 2) (args ! 3) w = (Inr (columns t), w1)"
    using Connect_success by blast
  from resolve_success [OF first] have "schemaCache w1 (args ! 2) = Some (columns t)"
    by simp
  with run have hit: "schemaCache w2 (args' ! 2) = Some (columns t)"
    using reaches_keeps_entries assms(3) by metis
  show "length (sent w1) \<le> length (sent w) + 1"
    using resolve_world [of L E "args ! 2" "args ! 3" w] first by simp
  show "resolve L E' (args' ! 2) (args' ! 3) w2 = (Inr (columns t), w2)"
    using hit by (rule resolve_hit)
  show "snd (Connect L E' args' w2) = w2"
    by (simp add: Connect_hit [OF assms(2) hit])
  then show "sent (snd (Connect L E' args' w2)) = sent w2"
    by simp
  show "\<forall>t'. fst (Connect L E' args' w2) = Inr t' \<longrightarrow> columns t' = columns t"
    by (auto simp: Connect_hit [OF assms(2) hit] split: option.splits)
  show "fst (Connect L E' args' w2)
      = Inr \<lparr>tableName = args' ! 2, tableDesc = args' ! 3, columns = columns t\<rparr>"
    if "DeclareVTab E' (schemaString (columns t)) = None"
    using that by (simp add: Connect_hit [OF assms(2) hit])
qed

text \<open>
  The first call in the example environment fills the cache with one request; the
  second call, with no API key and no service, returns the same table.
\<close>

theorem Connect_resolves_once_witness:
  "4 \<le> length exampleArgs
   \<and> Connect exampleLib exampleEnv exampleArgs emptyWorld = (Inr exampleTable, cachedWorld)
   \<and> reaches exampleLib cachedWorld cachedWorld
   \<and> length (sent cachedWorld) \<le> length (sent emptyWorld) + 1
   \<and> schemaCache cachedWorld (exampleArgs ! 2) = Some exampleColumns
   \<and> DeclareVTab offlineEnv (schemaString (columns exampleTable)) = None
   \<and> Connect exampleLib offlineEnv exampleArgs cachedWorld = (Inr exampleTable, cachedWorld)"
proof -
  have len: "4 \<le> length exampleArgs"
    by (simp add: exampleArgs_def)
  have r: "reaches exampleLib cachedWorld cachedWorld"
    by (rule reaches_refl)
  have d: "DeclareVTab offlineEnv (schemaString (columns exampleTable)) = None"
    by (simp add: offlineEnv_def)
  have c: "schemaCache cachedWorld (exampleArgs ! 2) = Some exampleColumns"
    by (simp add: cachedWorld_def exampleArgs_def)
  have t: "\<lparr>tableName = exampleArgs ! 2, tableDesc = exampleArgs ! 3,
             columns = columns exampleTable\<rparr> = exampleTable"
    by (simp add: exampleTable_def exampleArgs_def)
  note first = Connect_resolves_once [OF len len refl, where w = emptyWorld and L = exampleLib
      and E = exampleEnv and t = exampleTable and ?w1.0 = cachedWorld
      and ?w2.0 = cachedWorld and E' = offlineEnv and cached = exampleColumns]
  from first example_Connect r d
  have f: "fst (Connect exampleLib offlineEnv exampleArgs cachedWorld)
      = Inr \<lparr>tableName = exampleArgs ! 2, tableDesc = exampleArgs ! 3,
             columns = columns exampleTable\<rparr>"
    and s: "snd (Connect exampleLib offlineEnv exampleArgs cachedWorld) = cachedWorld"
    and l: "length (sent cachedWorld) \<le> length (sent emptyWorld) + 1"
    by blast+
  have "Connect exampleLib offlineEnv exampleArgs cachedWorld = (Inr exampleTable, cachedWorld)"
    using f s t by (simp only: prod_eq_iff fst_conv snd_conv simp_thms)
  with len r d c l example_Connect show ?thesis
    by (simp only: simp_thms)
qed

text \<open>
  The claim as it is written fails on this run of two calls for the same name: the
  first, whose answer has a column typed \<open>VARCHAR\<close>, is rejected by validation and
  stores nothing; the second, in the example environment, finds no entry and sends a
  second request. The two calls have invoked the generator twice, and only one of them
  has returned columns.
\<close>

theorem Connect_failed_first_call_counterexample:
  "fst (Connect exampleLib badTypeEnv exampleArgs emptyWorld) = Inl (InvalidType ''VARCHAR'' ''id'')
   \<and> length (sent (snd (Connect exampleLib badTypeEnv exampleArgs emptyWorld))) = 1
   \<and> fst (Connect exampleLib exampleEnv exampleArgs
            (snd (Connect exampleLib badTypeEnv exampleArgs emptyWorld))) = Inr exampleTable
   \<and> length (sent (snd (Connect exampleLib exampleEnv exampleArgs
            (snd (Connect exampleLib badTypeEnv exampleArgs emptyWorld))))) = 2"
proof -
  have bad: "validate [col ''id'' ''VARCHAR''] = Inl (InvalidType ''VARCHAR'' ''id'')"
    by (simp add: validate_def col_def validTypes_def)
  have first: "Connect exampleLib badTypeEnv exampleArgs emptyWorld
      = (Inl (InvalidType ''VARCHAR'' ''id''), emptyWorld\<lparr>sent := [SchemaRequest examplePrompt]\<rparr>)"
    by (simp add: Connect_def resolve_def bad exampleLib_def badTypeEnv_def exampleEnv_def
        exampleArgs_def emptyWorld_def examplePrompt_def)
  have second: "Connect exampleLib exampleEnv exampleArgs
        (emptyWorld\<lparr>sent := [SchemaRequest examplePrompt]\<rparr>)
      = (Inr exampleTable,
         cachedWorld\<lparr>sent := [SchemaRequest examplePrompt, SchemaRequest examplePrompt]\<rparr>)"
    by (simp add: Connect_def resolve_def example_validate exampleLib_def exampleEnv_def
        exampleArgs_def emptyWorld_def exampleTable_def cachedWorld_def examplePrompt_def)
  show ?thesis
    by (simp add: first second)
qed

subsection \<open>Open and the data cache\<close>

text \<open>
  Claim C3. If the cache file of the table can be read and its contents decode to a
  row sequence, \<^verbatim>\<open>Open\<close> returns a cursor at position 0 over those rows and the table's
  columns, sends no request and writes no file, in every environment: with no API
  key and with a service that fails. And if a call of \<^verbatim>\<open>Open\<close> has produced the
  rows from the service (it has sent a request) and has written them to the cache file,
  and the file written decodes to these rows, then every later call of \<^verbatim>\<open>Open\<close>, in
  any environments \<open>Es\<close> in which the file can be read, returns the same cursor and
  sends no request.
\<close>

theorem Open_reuses_cache:
  "(readable E (cacheFileOf L (tableName vt))
      \<and> files w (cacheFileOf L (tableName vt)) = Some contents
      \<and> Unmarshal_rows L contents = Inr rows \<longrightarrow>
        fst (Open L E vt w)
          = Inr \<lparr>curTableName = tableName vt, data = rows, pos = 0, curColumns = columns vt\<rparr>
        \<and> sent (snd (Open L E vt w)) = sent w
        \<and> files (snd (Open L E vt w)) = files w)
   \<and> (Open L E vt w = (Inr cur, w1) \<and> sent w1 \<noteq> sent w
      \<and> Marshal L (data cur) = Inr js \<and> WriteFile E (cacheFileOf L (tableName vt)) js
      \<and> Unmarshal_rows L js = Inr (data cur)
      \<and> (\<forall>E' \<in> set Es. readable E' (cacheFileOf L (tableName vt))) \<longrightarrow>
        fst (Open_all L Es vt w1) = replicate (length Es) (Inr cur)
        \<and> sent (snd (Open_all L Es vt w1)) = sent w1
        \<and> files (snd (Open_all L Es vt w1)) = files w1)"
proof (intro conjI impI)
  assume h: "readable E (cacheFileOf L (tableName vt))
      \<and> files w (cacheFileOf L (tableName vt)) = Some contents
      \<and> Unmarshal_rows L contents = Inr rows"
  then have rd: "readable E (cacheFileOf L (tableName vt))"
    and f: "files w (cacheFileOf L (tableName vt)) = Some contents"
    and u: "Unmarshal_rows L contents = Inr rows"
    by simp_all
  show "fst (Open L E vt w)
          = Inr \<lparr>curTableName = tableName vt, data = rows, pos = 0, curColumns = columns vt\<rparr>"
    "sent (snd (Open L E vt w)) = sent w"
    "files (snd (Open L E vt w)) = files w"
    using Open_hit [OF rd f u] by simp_all
next
  assume h: "Open L E vt w = (Inr cur, w1) \<and> sent w1 \<noteq> sent w
      \<and> Marshal L (data cur) = Inr js \<and> WriteFile E (cacheFileOf L (tableName vt)) js
      \<and> Unmarshal_rows L js = Inr (data cur)
      \<and> (\<forall>E' \<in> set Es. readable E' (cacheFileOf L (tableName vt)))"
  then have o: "Open L E vt w = (Inr cur, w1)" and s: "sent w1 \<noteq> sent w"
    and m: "Marshal L (data cur) = Inr js"
    and wr: "WriteFile E (cacheFileOf L (tableName vt)) js"
    and u: "Unmarshal_rows L js = Inr (data cur)"
    and rd: "\<forall>E' \<in> set Es. readable E' (cacheFileOf L (tableName vt))"
    by simp_all
  from Open_cases [of E w L vt] o s obtain w0
    where g: "generate L E vt (cacheFileOf L (tableName vt)) w0 = (Inr cur, w1)"
    by auto
  from generate_success [OF g] m wr
  have f: "files w1 (cacheFileOf L (tableName vt)) = Some js"
    and c: "cur = \<lparr>curTableName = tableName vt, data = data cur, pos = 0,
                   curColumns = columns vt\<rparr>"
    by blast+
  from Open_all_hits [OF f u rd] c
  show "fst (Open_all L Es vt w1) = replicate (length Es) (Inr cur)"
    "sent (snd (Open_all L Es vt w1)) = sent w1"
    "files (snd (Open_all L Es vt w1)) = files w1"
    by simp_all
qed

text \<open>
  The table is opened in the example environment and then twice with no API key and no
  service.
\<close>

theorem Open_reuses_cache_witness:
  "fst (Open exampleLib exampleEnv exampleTable emptyWorld) = Inr exampleCursor
   \<and> sent materializedWorld \<noteq> sent emptyWorld
   \<and> Marshal exampleLib (data exampleCursor) = Inr ''stored''
   \<and> WriteFile exampleEnv (cacheFileOf exampleLib (tableName exampleTable)) ''stored''
   \<and> Unmarshal_rows exampleLib ''stored'' = Inr (data exampleCursor)
   \<and> readable offlineEnv (cacheFileOf exampleLib (tableName exampleTable))
   \<and> Getenv offlineEnv ''OPENAI_API_KEY'' = ''''
   \<and> fst (Open_all exampleLib [offlineEnv, offlineEnv] exampleTable materializedWorld)
       = [Inr exampleCursor, Inr exampleCursor]
   \<and> sent (snd (Open_all exampleLib [offlineEnv, offlineEnv] exampleTable materializedWorld))
       = sent materializedWorld"
proof -
  have o: "Open exampleLib exampleEnv exampleTable emptyWorld = (Inr exampleCursor, materializedWorld)"
    by (simp add: materializedWorld_def example_Open)
  have s: "sent materializedWorld \<noteq> sent emptyWorld"
    unfolding materializedWorld_def example_Open by (simp add: emptyWorld_def)
  have m: "Marshal exampleLib (data exampleCursor) = Inr ''stored''"
    and wr: "WriteFile exampleEnv (cacheFileOf exampleLib (tableName exampleTable)) ''stored''"
    and u: "Unmarshal_rows exampleLib ''stored'' = Inr (data exampleCursor)"
    and k: "Getenv offlineEnv ''OPENAI_API_KEY'' = ''''"
    by (simp_all add: exampleLib_def exampleEnv_def exampleCursor_def offlineEnv_def)
  have rd: "\<forall>E' \<in> set [offlineEnv, offlineEnv].
      readable E' (cacheFileOf exampleLib (tableName exampleTable))"
    by (simp add: offlineEnv_def)
  have h: "Open exampleLib exampleEnv exampleTable emptyWorld = (Inr exampleCursor, materializedWorld)
      \<and> sent materializedWorld \<noteq> sent emptyWorld
      \<and> Marshal exampleLib (data exampleCursor) = Inr ''stored''
      \<and> WriteFile exampleEnv (cacheFileOf exampleLib (tableName exampleTable)) ''stored''
      \<and> Unmarshal_rows exampleLib ''stored'' = Inr (data exampleCursor)
      \<and> (\<forall>E' \<in> set [offlineEnv, offlineEnv].
            readable E' (cacheFileOf exampleLib (tableName exampleTable)))"
    using o s m wr u rd by (simp only: simp_thms)
  note T = Open_reuses_cache [where L = exampleLib and E = exampleEnv and vt = exampleTable
      and w = emptyWorld and cur = exampleCursor and ?w1.0 = materializedWorld
      and js = "''stored''" and Es = "[offlineEnv, offlineEnv]"]
  from T h
  have a: "fst (Open_all exampleLib [offlineEnv, offlineEnv] exampleTable materializedWorld)
       = replicate (length [offlineEnv, offlineEnv]) (Inr exampleCursor)"
    and b: "sent (snd (Open_all exampleLib [offlineEnv, offlineEnv] exampleTable materializedWorld))
       = sent materializedWorld"
    by blast+
  have rp: "replicate (length [offlineEnv, offlineEnv]) (Inr exampleCursor :: error + InfiniCursor)
      = [Inr exampleCursor, Inr exampleCursor]"
    by (simp add: numeral_2_eq_2)
  have r1: "readable offlineEnv (cacheFileOf exampleLib (tableName exampleTable))"
    by (simp add: offlineEnv_def)
  have f: "fst (Open exampleLib exampleEnv exampleTable emptyWorld) = Inr exampleCursor"
    by (simp add: o)
  show ?thesis
    using f s m wr u r1 k a b unfolding rp by (simp only: simp_thms)
qed

text \<open>
  Claim C7. When \<^verbatim>\<open>Open\<close> finds no usable cache file and asks the service, an answer
  that decodes to zero rows makes it fail with \<open>EmptyData\<close>: no cursor is returned
  and no file is written.
\<close>

theorem Open_rejects_empty_data:
  assumes "ReadFile E w (cacheFileOf L (tableName vt)) = None
     \<or> (\<exists>contents err. ReadFile E w (cacheFileOf L (tableName vt)) = Some contents
           \<and> Unmarshal_rows L contents = Inl err)"
    and "Getenv E ''OPENAI_API_KEY'' \<noteq> ''''"
    and "renderPrompt E ''prompts/data_generation.txt''
           \<lparr>TableName = tableName vt, TableDesc = tableDesc vt\<rparr> = Inr p"
    and "New E (DataRequest p (makeDataSchema (columns vt))) = Inr (content # rest)"
    and "Unmarshal_data L content = Inr []"
  shows "fst (Open L E vt w) = Inl EmptyData
     \<and> (\<forall>cur. fst (Open L E vt w) \<noteq> Inr cur)
     \<and> files (snd (Open L E vt w)) = files w"
  using assms(2-5) by (simp add: Open_miss [OF assms(1)] generate_def Let_def)

text \<open>The example table opened in an environment whose service answers with no rows.\<close>

theorem Open_rejects_empty_data_witness:
  "ReadFile emptyAnswerEnv emptyWorld (cacheFileOf exampleLib (tableName exampleTable)) = None
   \<and> Getenv emptyAnswerEnv ''OPENAI_API_KEY'' \<noteq> ''''
   \<and> New emptyAnswerEnv
        (DataRequest ''prompts/data_generation.txt people the people of a town''
           (makeDataSchema (columns exampleTable))) = Inr [''norows'']
   \<and> Unmarshal_data exampleLib ''norows'' = Inr []
   \<and> fst (Open exampleLib emptyAnswerEnv exampleTable emptyWorld) = Inl EmptyData
   \<and> files (snd (Open exampleLib emptyAnswerEnv exampleTable emptyWorld)) = files emptyWorld"
proof -
  have miss: "ReadFile emptyAnswerEnv emptyWorld (cacheFileOf exampleLib (tableName exampleTable)) = None"
    by (simp add: ReadFile_def emptyWorld_def)
  have key: "Getenv emptyAnswerEnv ''OPENAI_API_KEY'' \<noteq> ''''"
    by (simp add: emptyAnswerEnv_def exampleEnv_def)
  have prompt: "renderPrompt emptyAnswerEnv ''prompts/data_generation.txt''
           \<lparr>TableName = tableName exampleTable, TableDesc = tableDesc exampleTable\<rparr>
        = Inr ''prompts/data_generation.txt people the people of a town''"
    by (simp add: emptyAnswerEnv_def exampleEnv_def exampleTable_def)
  have answer: "New emptyAnswerEnv
        (DataRequest ''prompts/data_generation.txt people the people of a town''
           (makeDataSchema (columns exampleTable))) = Inr (''norows'' # [])"
    by (simp add: emptyAnswerEnv_def)
  have norows: "Unmarshal_data exampleLib ''norows'' = Inr []"
    by (simp add: exampleLib_def)
  show ?thesis
    using miss key answer norows
      Open_rejects_empty_data [OF disjI1 [OF miss] key prompt answer norows]
    by (simp only: simp_thms)
qed

subsection \<open>Failures and the caches\<close>

text \<open>
  Claim C4. A resolution that fails leaves the schema cache as it was, and so does a
  \<^verbatim>\<open>Connect\<close> that fails for missing arguments, a missing API key, a prompt that
  cannot be rendered, a failure of the service, an answer that cannot be decoded or a
  schema that is rejected. (The one other failure of \<^verbatim>\<open>Connect\<close> is SQLite refusing
  the declaration, after the resolution has succeeded.) Whenever \<^verbatim>\<open>Connect\<close> changes
  the cache, the entry it stores under the table name is a whole decoded answer that has
  passed validation. An \<^verbatim>\<open>Open\<close> that fails leaves every file and the schema cache
  as they were; whenever \<^verbatim>\<open>Open\<close> changes a file, it has succeeded and the cache file
  holds the encoding of all the rows of its cursor, of which there is at least one. The
  rows of a cursor that \<^verbatim>\<open>Open\<close> returns are all the rows decoded from the cache file,
  or all the rows decoded from the answer of the service.
\<close>

theorem failures_leave_caches:
  "(resolve L E name desc w = (Inl e, w') \<longrightarrow> schemaCache w' = schemaCache w)
   \<and> (Connect L E args w = (Inl e, w') \<and> (\<forall>m. e \<noteq> DeclareError m) \<longrightarrow>
        schemaCache w' = schemaCache w \<and> files w' = files w)
   \<and> (Connect L E args w = (r, w') \<and> schemaCache w' \<noteq> schemaCache w \<longrightarrow>
        (\<exists>cols content. schemaCache w' = (schemaCache w)(args ! 2 \<mapsto> cols)
            \<and> Unmarshal_schema L content = Inr cols \<and> validate cols = Inr ()))
   \<and> (Open L E vt w = (Inl e, w') \<longrightarrow> files w' = files w \<and> schemaCache w' = schemaCache w)
   \<and> (Open L E vt w = (ro, w') \<and> files w' \<noteq> files w \<longrightarrow>
        (\<exists>cur js. ro = Inr cur \<and> data cur \<noteq> [] \<and> Marshal L (data cur) = Inr js
            \<and> files w' = (files w)(cacheFileOf L (tableName vt) \<mapsto> js)))
   \<and> (Open L E vt w = (Inr cur, w') \<longrightarrow>
        (\<exists>contents. ReadFile E w (cacheFileOf L (tableName vt)) = Some contents
            \<and> Unmarshal_rows L contents = Inr (data cur))
        \<or> (data cur \<noteq> []
            \<and> (\<exists>p content rest.
                  New E (DataRequest p (makeDataSchema (columns vt))) = Inr (content # rest)
                  \<and> Unmarshal_data L content = Inr (data cur))))"
proof (intro conjI impI)
  show "schemaCache w' = schemaCache w" if "resolve L E name desc w = (Inl e, w')"
    using that by (rule resolve_failure)
next
  assume h: "Connect L E args w = (Inl e, w') \<and> (\<forall>m. e \<noteq> DeclareError m)"
  with Connect_failure [of L E args w e w']
  have "w' = w \<or> resolve L E (args ! 2) (args ! 3) w = (Inl e, w')"
    by blast
  then show "schemaCache w' = schemaCache w" "files w' = files w"
    using resolve_failure [of L E "args ! 2" "args ! 3" w e w']
      resolve_world [of L E "args ! 2" "args ! 3" w]
    by auto
next
  assume h: "Connect L E args w = (r, w') \<and> schemaCache w' \<noteq> schemaCache w"
  with Connect_state [of L E args w]
  have s: "w' = snd (resolve L E (args ! 2) (args ! 3) w)"
    by auto
  obtain rr where rr: "resolve L E (args ! 2) (args ! 3) w = (rr, w')"
    using s by (cases "resolve L E (args ! 2) (args ! 3) w") simp
  show "\<exists>cols content. schemaCache w' = (schemaCache w)(args ! 2 \<mapsto> cols)
            \<and> Unmarshal_schema L content = Inr cols \<and> validate cols = Inr ()"
  proof (cases rr)
    case (Inl e')
    with rr resolve_failure [of L E "args ! 2" "args ! 3" w e' w'] h show ?thesis by simp
  next
    case (Inr cols)
    with rr resolve_success [of L E "args ! 2" "args ! 3" w cols w'] h show ?thesis by auto
  qed
next
  assume h: "Open L E vt w = (Inl e, w')"
  show "schemaCache w' = schemaCache w"
    using Open_world [of L E vt w] h by simp
  from Open_cases [of E w L vt] h obtain w0
    where w0: "files w0 = files w" "generate L E vt (cacheFileOf L (tableName vt)) w0 = (Inl e, w')"
    by auto
  from generate_failure [OF w0(2)] w0(1) show "files w' = files w"
    by simp
next
  assume h: "Open L E vt w = (ro, w') \<and> files w' \<noteq> files w"
  with Open_cases [of E w L vt] obtain w0
    where w0: "files w0 = files w" "generate L E vt (cacheFileOf L (tableName vt)) w0 = (ro, w')"
    by auto
  show "\<exists>cur js. ro = Inr cur \<and> data cur \<noteq> [] \<and> Marshal L (data cur) = Inr js
            \<and> files w' = (files w)(cacheFileOf L (tableName vt) \<mapsto> js)"
  proof (cases ro)
    case (Inl e')
    with w0 generate_failure [of L E vt "cacheFileOf L (tableName vt)" w0 e' w'] h
    show ?thesis by simp
  next
    case (Inr cur)
    with w0 generate_success [of L E vt "cacheFileOf L (tableName vt)" w0 cur w'] h
    show ?thesis by auto
  qed
next
  assume h: "Open L E vt w = (Inr cur, w')"
  from Open_cases [of E w L vt]
  show "(\<exists>contents. ReadFile E w (cacheFileOf L (tableName vt)) = Some contents
            \<and> Unmarshal_rows L contents = Inr (data cur))
        \<or> (data cur \<noteq> []
            \<and> (\<exists>p content rest.
                  New E (DataRequest p (makeDataSchema (columns vt))) = Inr (content # rest)
                  \<and> Unmarshal_data L content = Inr (data cur)))"
  proof
    assume "\<exists>contents rows. ReadFile E w (cacheFileOf L (tableName vt)) = Some contents
        \<and> Unmarshal_rows L contents = Inr rows
        \<and> fst (Open L E vt w)
            = Inr \<lparr>curTableName = tableName vt, data = rows, pos = 0, curColumns = columns vt\<rparr>
        \<and> files (snd (Open L E vt w)) = files w
        \<and> sent (snd (Open L E vt w)) = sent w"
    with h show ?thesis by auto
  next
    assume "\<exists>w0. files w0 = files w \<and> sent w0 = sent w
        \<and> Open L E vt w = generate L E vt (cacheFileOf L (tableName vt)) w0"
    then obtain w0 where "generate L E vt (cacheFileOf L (tableName vt)) w0 = (Inr cur, w')"
      using h by auto
    from generate_success [OF this] show ?thesis by blast
  qed
qed

text \<open>
  A \<^verbatim>\<open>Connect\<close> whose answer is rejected and an \<^verbatim>\<open>Open\<close> whose answer has no rows
  leave the caches of the initial state untouched.
\<close>

theorem failures_leave_caches_witness:
  "fst (Connect exampleLib badTypeEnv exampleArgs emptyWorld) = Inl (InvalidType ''VARCHAR'' ''id'')
   \<and> schemaCache (snd (Connect exampleLib badTypeEnv exampleArgs emptyWorld)) = schemaCache emptyWorld
   \<and> fst (Open exampleLib emptyAnswerEnv exampleTable emptyWorld) = Inl EmptyData
   \<and> files (snd (Open exampleLib emptyAnswerEnv exampleTable emptyWorld)) = files emptyWorld
   \<and> schemaCache cachedWorld = (schemaCache emptyWorld)(''people'' \<mapsto> exampleColumns)
   \<and> files materializedWorld = (files emptyWorld)(''.cache/people_data.json'' \<mapsto> ''stored'')"
proof -
  have bad: "validate [col ''id'' ''VARCHAR''] = Inl (InvalidType ''VARCHAR'' ''id'')"
    by (simp add: validate_def col_def validTypes_def)
  have c1: "fst (Connect exampleLib badTypeEnv exampleArgs emptyWorld)
      = Inl (InvalidType ''VARCHAR'' ''id'')"
    by (simp add: Connect_def resolve_def bad exampleLib_def badTypeEnv_def exampleEnv_def
        exampleArgs_def emptyWorld_def)
  then have c: "Connect exampleLib badTypeEnv exampleArgs emptyWorld
      = (Inl (InvalidType ''VARCHAR'' ''id''),
         snd (Connect exampleLib badTypeEnv exampleArgs emptyWorld))"
    by (simp add: prod_eq_iff)
  have o1: "fst (Open exampleLib emptyAnswerEnv exampleTable emptyWorld) = Inl EmptyData"
    by (simp add: Open_def generate_def ReadFile_def cacheFileOf_def Let_def exampleLib_def
        emptyAnswerEnv_def exampleEnv_def exampleTable_def emptyWorld_def)
  then have o: "Open exampleLib emptyAnswerEnv exampleTable emptyWorld
      = (Inl EmptyData, snd (Open exampleLib emptyAnswerEnv exampleTable emptyWorld))"
    by (simp add: prod_eq_iff)
  have ne: "\<forall>m. InvalidType ''VARCHAR'' ''id'' \<noteq> DeclareError m"
    by simp
  from c ne
    failures_leave_caches [where L = exampleLib and E = badTypeEnv and args = exampleArgs
      and w = emptyWorld and e = "InvalidType ''VARCHAR'' ''id''"
      and w' = "snd (Connect exampleLib badTypeEnv exampleArgs emptyWorld)"]
  have a: "schemaCache (snd (Connect exampleLib badTypeEnv exampleArgs emptyWorld))
      = schemaCache emptyWorld"
    by blast
  from o
    failures_leave_caches [where L = exampleLib and E = emptyAnswerEnv and vt = exampleTable
      and w = emptyWorld and e = EmptyData
      and w' = "snd (Open exampleLib emptyAnswerEnv exampleTable emptyWorld)"]
  have b: "files (snd (Open exampleLib emptyAnswerEnv exampleTable emptyWorld)) = files emptyWorld"
    by blast
  have s: "schemaCache cachedWorld = (schemaCache emptyWorld)(''people'' \<mapsto> exampleColumns)"
    by (simp add: cachedWorld_def emptyWorld_def)
  have f: "files materializedWorld = (files emptyWorld)(''.cache/people_data.json'' \<mapsto> ''stored'')"
    unfolding materializedWorld_def example_Open by (simp add: emptyWorld_def)
  show ?thesis
    using c1 a o1 b s f by (simp only: simp_thms)
qed

subsection \<open>The cursor\<close>

text \<open>
  \<open>k\<close> calls of \<^verbatim>\<open>Next\<close> add \<open>k\<close> to the position (modulo \<open>2 ^ 64\<close>).
\<close>

lemma Next_iter:
  "(Next ^^ k) cur = cur\<lparr>pos := pos cur + of_nat k\<rparr>"
  by (induction k) (simp_all add: Next_def add.assoc add.commute)

lemma sint_of_nat_64:
  "sint (of_nat k :: 64 word) = int k" if "k < 2 ^ 63"
proof -
  have "signed_take_bit 63 (int k) = int k"
    using that by (intro signed_take_bit_int_eq_self) simp_all
  then show ?thesis
    by (simp add: signed_of_nat)
qed

text \<open>
  Claim C6. For a cursor over \<open>N = length (data cur)\<close> rows, \<^verbatim>\<open>EOF\<close> is true iff the
  position is at least \<open>N\<close>; at a position from 0 on, it is false exactly in
  \<open>0 .. N - 1\<close>. The position after \<^verbatim>\<open>Filter\<close> and \<open>k\<close> calls of \<^verbatim>\<open>Next\<close> is \<open>k\<close>
  (for \<open>k\<close> below \<open>2 ^ 63\<close>, where the 64-bit position has not wrapped around), so
  \<^verbatim>\<open>EOF\<close> holds there iff \<open>N \<le> k\<close>. \<^verbatim>\<open>Column\<close> at position \<open>N\<close>, and at every
  position or column index out of bounds, fails with \<open>CursorOutOfRange\<close> and leaves
  the cursor as it was.
\<close>

theorem cursor_bounds:
  "(EOF cur \<longleftrightarrow> int (length (data cur)) \<le> sint (pos cur))
   \<and> (0 \<le> sint (pos cur) \<longrightarrow> (\<not> EOF cur \<longleftrightarrow> nat (sint (pos cur)) \<in> {0 ..< length (data cur)}))
   \<and> (k < 2 ^ 63 \<longrightarrow>
        sint (pos ((Next ^^ k) (Filter cur))) = int k
        \<and> data ((Next ^^ k) (Filter cur)) = data cur
        \<and> (EOF ((Next ^^ k) (Filter cur)) \<longleftrightarrow> length (data cur) \<le> k))
   \<and> (sint (pos cur) = int (length (data cur)) \<longrightarrow>
        Column L cur c = (Inl CursorOutOfRange, cur))
   \<and> (sint (pos cur) < 0 \<or> int (length (data cur)) \<le> sint (pos cur)
        \<or> sint c < 0 \<or> int (length (curColumns cur)) \<le> sint c \<longrightarrow>
        Column L cur c = (Inl CursorOutOfRange, cur))"
proof (intro conjI impI)
  show "EOF cur \<longleftrightarrow> int (length (data cur)) \<le> sint (pos cur)"
    by (simp add: EOF_def)
  show "\<not> EOF cur \<longleftrightarrow> nat (sint (pos cur)) \<in> {0 ..< length (data cur)}"
    if "0 \<le> sint (pos cur)"
    using that by (auto simp: EOF_def)
  show "sint (pos ((Next ^^ k) (Filter cur))) = int k" if "k < 2 ^ 63"
    using that by (simp add: Next_iter Filter_def sint_of_nat_64)
  show "data ((Next ^^ k) (Filter cur)) = data cur"
    by (simp add: Next_iter Filter_def)
  show "EOF ((Next ^^ k) (Filter cur)) \<longleftrightarrow> length (data cur) \<le> k" if "k < 2 ^ 63"
    using that by (simp add: EOF_def Next_iter Filter_def sint_of_nat_64)
  show "Column L cur c = (Inl CursorOutOfRange, cur)"
    if "sint (pos cur) = int (length (data cur))"
    using that by (simp add: Column_def)
  show "Column L cur c = (Inl CursorOutOfRange, cur)"
    if "sint (pos cur) < 0 \<or> int (length (data cur)) \<le> sint (pos cur)
        \<or> sint c < 0 \<or> int (length (curColumns cur)) \<le> sint c"
    using that by (auto simp: Column_def)
qed

text \<open>The example cursor has three rows: it is at its end after three steps.\<close>

theorem cursor_bounds_witness:
  "0 \<le> sint (pos exampleCursor)
   \<and> \<not> EOF exampleCursor
   \<and> (3 :: nat) < 2 ^ 63
   \<and> sint (pos ((Next ^^ 3) (Filter exampleCursor))) = 3
   \<and> EOF ((Next ^^ 3) (Filter exampleCursor))
   \<and> Column exampleLib ((Next ^^ 3) (Filter exampleCursor)) 0
       = (Inl CursorOutOfRange, (Next ^^ 3) (Filter exampleCursor))"
proof -
  have len: "length (data exampleCursor) = 3" and p0: "pos exampleCursor = 0"
    by (simp_all add: exampleCursor_def exampleRows_def)
  have k: "(3 :: nat) < 2 ^ 63"
    by simp
  show ?thesis
    using len p0 k
      cursor_bounds [of exampleCursor 3 exampleLib 0]
      cursor_bounds [of "(Next ^^ 3) (Filter exampleCursor)" 3 exampleLib 0]
    by simp
qed

lemma truncate_real_of_int:
  "truncate_real (of_int n) = n"
  by (simp add: truncate_real_def)

text \<open>
  The conversion \<^verbatim>\<open>int64(v)\<close> in plain terms: the floor of a number from 0 up to
  (not including) \<open>2 ^ 63\<close>, the ceiling of a negative number above \<open>- 2 ^ 63 - 1\<close>,
  and the implementation's value everywhere else.
\<close>

lemma int64_of_float64_floor:
  assumes "0 \<le> f" and "f < 2 ^ 63"
  shows "int64_of_float64 L f = word_of_int \<lfloor>f\<rfloor>"
proof -
  have "\<lfloor>f\<rfloor> < 2 ^ 63"
    using assms(2) by (simp add: floor_less_iff)
  moreover have "0 \<le> \<lfloor>f\<rfloor>"
    using assms(1) by simp
  ultimately show ?thesis
    using assms(1) by (simp add: int64_of_float64_def truncate_real_def)
qed

lemma int64_of_float64_ceiling:
  assumes "f < 0" and "- (2 ^ 63) - 1 < f"
  shows "int64_of_float64 L f = word_of_int \<lceil>f\<rceil>"
proof -
  have lo: "- (2 ^ 63) \<le> \<lceil>f\<rceil>"
    using assms(2) by (simp add: le_ceiling_iff)
  have "\<lceil>f\<rceil> \<le> 0"
    using assms(1) by (simp add: ceiling_le_iff)
  then have hi: "\<lceil>f\<rceil> < 2 ^ 63"
    by simp
  show ?thesis
    using assms(1) lo hi by (simp add: int64_of_float64_def truncate_real_def)
qed

lemma int64_of_float64_overflow:
  assumes "2 ^ 63 \<le> f \<or> f \<le> - (2 ^ 63) - 1"
  shows "int64_of_float64 L f = int64_overflow L f"
  using assms
proof
  assume h: "2 ^ 63 \<le> f"
  then have "2 ^ 63 \<le> \<lfloor>f\<rfloor>"
    by (simp add: le_floor_iff)
  moreover from h have "0 \<le> f"
    by (rule order_trans [rotated]) simp
  ultimately show ?thesis
    by (simp add: int64_of_float64_def truncate_real_def)
next
  assume h: "f \<le> - (2 ^ 63) - 1"
  then have "\<lceil>f\<rceil> \<le> - (2 ^ 63) - 1"
    by (simp add: ceiling_le_iff)
  then have "\<not> - (2 ^ 63) \<le> \<lceil>f\<rceil>"
    by simp
  moreover from h have "f < 0"
    by (rule le_less_trans) simp
  ultimately show ?thesis
    by (simp add: int64_of_float64_def truncate_real_def)
qed

lemma Column_in_range:
  assumes "0 \<le> sint (pos cur)" "sint (pos cur) < int (length (data cur))"
    "0 \<le> sint c" "sint c < int (length (curColumns cur))"
  shows "Column L cur c =
     (case (data cur ! nat (sint (pos cur))) (Name (curColumns cur ! nat (sint c))) of
        None \<Rightarrow> (Inr ResultNull, cur)
      | Some v \<Rightarrow> (coerce L (Type (curColumns cur ! nat (sint c)))
                       (Name (curColumns cur ! nat (sint c))) v, cur))"
  using assms by (simp add: Column_def Let_def)

text \<open>
  Claim C5, as the code has it. At a position and a column index within bounds
  \<^verbatim>\<open>Column\<close> never changes the cursor. If the row \<open>r\<close> has no key for the column \<open>cl\<close>
  the result is null. If it holds a value \<open>v\<close>:
  \<^item> \<open>INTEGER\<close> accepts every \<^verbatim>\<open>float64\<close> \<open>f\<close> and never fails on one. For
    \<open>0 \<le> f < 2 ^ 63\<close> the result is the floor of \<open>f\<close>, for \<open>- 2 ^ 63 - 1 < f < 0\<close> it is
    the ceiling of \<open>f\<close>: the fraction is discarded. So a number with an integer value
    \<open>n\<close> in the range of \<^verbatim>\<open>int64\<close> yields \<open>n\<close>. For every other \<open>f\<close> the result is the
    64-bit integer the implementation gives for \<^verbatim>\<open>int64(f)\<close>. An \<^verbatim>\<open>int64\<close> is passed
    through; every other value fails with \<open>TypeMismatch\<close>;
  \<^item> \<open>TEXT\<close> yields a string and fails with \<open>TypeMismatch\<close> on every other value;
  \<^item> \<open>REAL\<close> yields a \<^verbatim>\<open>float64\<close> and fails with \<open>TypeMismatch\<close> on every other value;
  \<^item> \<open>BLOB\<close> yields the bytes of a string or a byte sequence and fails with
    \<open>TypeMismatch\<close> on every other value.
\<close>

theorem Column_reads_declared_type:
  assumes "0 \<le> sint (pos cur)" "sint (pos cur) < int (length (data cur))"
    "0 \<le> sint c" "sint c < int (length (curColumns cur))"
    and r: "r = data cur ! nat (sint (pos cur))"
    and cl: "cl = curColumns cur ! nat (sint c)"
  shows
    "snd (Column L cur c) = cur
     \<and> (r (Name cl) = None \<longrightarrow> fst (Column L cur c) = Inr ResultNull)
     \<and> (r (Name cl) = Some v \<and> Type cl = ''INTEGER'' \<longrightarrow>
          (v = Float64 f \<longrightarrow> fst (Column L cur c) = Inr (ResultInt64 (int64_of_float64 L f)))
        \<and> (v = Float64 f \<and> 0 \<le> f \<and> f < 2 ^ 63 \<longrightarrow>
             fst (Column L cur c) = Inr (ResultInt64 (word_of_int \<lfloor>f\<rfloor>)))
        \<and> (v = Float64 f \<and> f < 0 \<and> - (2 ^ 63) - 1 < f \<longrightarrow>
             fst (Column L cur c) = Inr (ResultInt64 (word_of_int \<lceil>f\<rceil>)))
        \<and> (v = Float64 f \<and> (2 ^ 63 \<le> f \<or> f \<le> - (2 ^ 63) - 1) \<longrightarrow>
             fst (Column L cur c) = Inr (ResultInt64 (int64_overflow L f)))
        \<and> (v = Float64 (of_int n) \<and> - (2 ^ 63) \<le> n \<and> n < 2 ^ 63 \<longrightarrow>
             fst (Column L cur c) = Inr (ResultInt64 (word_of_int n)))
        \<and> (v = Int64 i \<longrightarrow> fst (Column L cur c) = Inr (ResultInt64 i))
        \<and> ((\<forall>x. v \<noteq> Float64 x) \<and> (\<forall>x. v \<noteq> Int64 x) \<longrightarrow>
             fst (Column L cur c) = Inl (TypeMismatch (Name cl) ''integer'')))
     \<and> (r (Name cl) = Some v \<and> Type cl = ''TEXT'' \<longrightarrow>
          (v = String s \<longrightarrow> fst (Column L cur c) = Inr (ResultText s))
        \<and> ((\<forall>x. v \<noteq> String x) \<longrightarrow>
             fst (Column L cur c) = Inl (TypeMismatch (Name cl) ''text'')))
     \<and> (r (Name cl) = Some v \<and> Type cl = ''REAL'' \<longrightarrow>
          (v = Float64 f \<longrightarrow> fst (Column L cur c) = Inr (ResultDouble f))
        \<and> ((\<forall>x. v \<noteq> Float64 x) \<longrightarrow>
             fst (Column L cur c) = Inl (TypeMismatch (Name cl) ''real'')))
     \<and> (r (Name cl) = Some v \<and> Type cl = ''BLOB'' \<longrightarrow>
          (v = String s \<longrightarrow> fst (Column L cur c) = Inr (ResultBlob s))
        \<and> (v = Bytes b \<longrightarrow> fst (Column L cur c) = Inr (ResultBlob b))
        \<and> ((\<forall>x. v \<noteq> String x) \<and> (\<forall>x. v \<noteq> Bytes x) \<longrightarrow>
             fst (Column L cur c) = Inl (TypeMismatch (Name cl) ''blob'')))"
proof -
  note C = Column_in_range [OF assms(1-4), of L, folded r cl]
  have unchanged: "snd (Column L cur c) = cur"
    by (simp add: C split: option.split)
  have absent: "fst (Column L cur c) = Inr ResultNull" if "r (Name cl) = None"
    using that by (simp add: C)
  have present: "fst (Column L cur c) = coerce L (Type cl) (Name cl) v"
    if "r (Name cl) = Some v"
    using that by (simp add: C)
  have integer:
    "(v = Float64 f \<longrightarrow> coerce L ''INTEGER'' (Name cl) v = Inr (ResultInt64 (int64_of_float64 L f)))
     \<and> (v = Float64 f \<and> 0 \<le> f \<and> f < 2 ^ 63 \<longrightarrow>
          coerce L ''INTEGER'' (Name cl) v = Inr (ResultInt64 (word_of_int \<lfloor>f\<rfloor>)))
     \<and> (v = Float64 f \<and> f < 0 \<and> - (2 ^ 63) - 1 < f \<longrightarrow>
          coerce L ''INTEGER'' (Name cl) v = Inr (ResultInt64 (word_of_int \<lceil>f\<rceil>)))
     \<and> (v = Float64 f \<and> (2 ^ 63 \<le> f \<or> f \<le> - (2 ^ 63) - 1) \<longrightarrow>
          coerce L ''INTEGER'' (Name cl) v = Inr (ResultInt64 (int64_overflow L f)))
     \<and> (v = Float64 (of_int n) \<and> - (2 ^ 63) \<le> n \<and> n < 2 ^ 63 \<longrightarrow>
          coerce L ''INTEGER'' (Name cl) v = Inr (ResultInt64 (word_of_int n)))
     \<and> (v = Int64 i \<longrightarrow> coerce L ''INTEGER'' (Name cl) v = Inr (ResultInt64 i))
     \<and> ((\<forall>x. v \<noteq> Float64 x) \<and> (\<forall>x. v \<noteq> Int64 x) \<longrightarrow>
          coerce L ''INTEGER'' (Name cl) v = Inl (TypeMismatch (Name cl) ''integer''))"
  proof -
    have conv: "coerce L ''INTEGER'' (Name cl) (Float64 x) = Inr (ResultInt64 (int64_of_float64 L x))"
      for x
      by (simp add: coerce_def)
    have whole: "int64_of_float64 L (of_int n) = word_of_int n" if "- (2 ^ 63) \<le> n" "n < 2 ^ 63"
      using that by (simp add: int64_of_float64_def truncate_real_of_int)
    have other: "coerce L ''INTEGER'' (Name cl) v = Inl (TypeMismatch (Name cl) ''integer'')"
      if "\<forall>x. v \<noteq> Float64 x" "\<forall>x. v \<noteq> Int64 x"
      using that by (cases v) (simp_all add: coerce_def)
    have passed: "coerce L ''INTEGER'' (Name cl) (Int64 i) = Inr (ResultInt64 i)"
      by (simp add: coerce_def)
    show ?thesis
      using conv whole other passed
        int64_of_float64_floor [of f L] int64_of_float64_ceiling [of f L]
        int64_of_float64_overflow [of f L]
      by (intro conjI impI; (elim conjE)?; simp)
  qed
  have text_:
    "(v = String s \<longrightarrow> coerce L ''TEXT'' (Name cl) v = Inr (ResultText s))
     \<and> ((\<forall>x. v \<noteq> String x) \<longrightarrow>
          coerce L ''TEXT'' (Name cl) v = Inl (TypeMismatch (Name cl) ''text''))"
    by (cases v) (simp_all add: coerce_def)
  have real_:
    "(v = Float64 f \<longrightarrow> coerce L ''REAL'' (Name cl) v = Inr (ResultDouble f))
     \<and> ((\<forall>x. v \<noteq> Float64 x) \<longrightarrow>
          coerce L ''REAL'' (Name cl) v = Inl (TypeMismatch (Name cl) ''real''))"
    by (cases v) (simp_all add: coerce_def)
  have blob:
    "(v = String s \<longrightarrow> coerce L ''BLOB'' (Name cl) v = Inr (ResultBlob s))
     \<and> (v = Bytes b \<longrightarrow> coerce L ''BLOB'' (Name cl) v = Inr (ResultBlob b))
     \<and> ((\<forall>x. v \<noteq> String x) \<and> (\<forall>x. v \<noteq> Bytes x) \<longrightarrow>
          coerce L ''BLOB'' (Name cl) v = Inl (TypeMismatch (Name cl) ''blob''))"
    by (cases v) (simp_all add: coerce_def)
  show ?thesis
  proof (intro conjI)
    show "snd (Column L cur c) = cur" by (rule unchanged)
    show "r (Name cl) = None \<longrightarrow> fst (Column L cur c) = Inr ResultNull"
      using absent by simp
    show "r (Name cl) = Some v \<and> Type cl = ''INTEGER'' \<longrightarrow>
          (v = Float64 f \<longrightarrow> fst (Column L cur c) = Inr (ResultInt64 (int64_of_float64 L f)))
        \<and> (v = Float64 f \<and> 0 \<le> f \<and> f < 2 ^ 63 \<longrightarrow>
             fst (Column L cur c) = Inr (ResultInt64 (word_of_int \<lfloor>f\<rfloor>)))
        \<and> (v = Float64 f \<and> f < 0 \<and> - (2 ^ 63) - 1 < f \<longrightarrow>
             fst (Column L cur c) = Inr (ResultInt64 (word_of_int \<lceil>f\<rceil>)))
        \<and> (v = Float64 f \<and> (2 ^ 63 \<le> f \<or> f \<le> - (2 ^ 63) - 1) \<longrightarrow>
             fst (Column L cur c) = Inr (ResultInt64 (int64_overflow L f)))
        \<and> (v = Float64 (of_int n) \<and> - (2 ^ 63) \<le> n \<and> n < 2 ^ 63 \<longrightarrow>
             fst (Column L cur c) = Inr (ResultInt64 (word_of_int n)))
        \<and> (v = Int64 i \<longrightarrow> fst (Column L cur c) = Inr (ResultInt64 i))
        \<and> ((\<forall>x. v \<noteq> Float64 x) \<and> (\<forall>x. v \<noteq> Int64 x) \<longrightarrow>
             fst (Column L cur c) = Inl (TypeMismatch (Name cl) ''integer''))"
    proof
      assume "r (Name cl) = Some v \<and> Type cl = ''INTEGER''"
      then have eq: "fst (Column L cur c) = coerce L ''INTEGER'' (Name cl) v"
        using present by simp
      show "(v = Float64 f \<longrightarrow> fst (Column L cur c) = Inr (ResultInt64 (int64_of_float64 L f)))
        \<and> (v = Float64 f \<and> 0 \<le> f \<and> f < 2 ^ 63 \<longrightarrow>
             fst (Column L cur c) = Inr (ResultInt64 (word_of_int \<lfloor>f\<rfloor>)))
        \<and> (v = Float64 f \<and> f < 0 \<and> - (2 ^ 63) - 1 < f \<longrightarrow>
             fst (Column L cur c) = Inr (ResultInt64 (word_of_int \<lceil>f\<rceil>)))
        \<and> (v = Float64 f \<and> (2 ^ 63 \<le> f \<or> f \<le> - (2 ^ 63) - 1) \<longrightarrow>
             fst (Column L cur c) = Inr (ResultInt64 (int64_overflow L f)))
        \<and> (v = Float64 (of_int n) \<and> - (2 ^ 63) \<le> n \<and> n < 2 ^ 63 \<longrightarrow>
             fst (Column L cur c) = Inr (ResultInt64 (word_of_int n)))
        \<and> (v = Int64 i \<longrightarrow> fst (Column L cur c) = Inr (ResultInt64 i))
        \<and> ((\<forall>x. v \<noteq> Float64 x) \<and> (\<forall>x. v \<noteq> Int64 x) \<longrightarrow>
             fst (Column L cur c) = Inl (TypeMismatch (Name cl) ''integer''))"
        unfolding eq by (rule integer)
    qed
    show "r (Name cl) = Some v \<and> Type cl = ''TEXT'' \<longrightarrow>
          (v = String s \<longrightarrow> fst (Column L cur c) = Inr (ResultText s))
        \<and> ((\<forall>x. v \<noteq> String x) \<longrightarrow>
             fst (Column L cur c) = Inl (TypeMismatch (Name cl) ''text''))"
      using text_ present by simp
    show "r (Name cl) = Some v \<and> Type cl = ''REAL'' \<longrightarrow>
          (v = Float64 f \<longrightarrow> fst (Column L cur c) = Inr (ResultDouble f))
        \<and> ((\<forall>x. v \<noteq> Float64 x) \<longrightarrow>
             fst (Column L cur c) = Inl (TypeMismatch (Name cl) ''real''))"
      using real_ present by simp
    show "r (Name cl) = Some v \<and> Type cl = ''BLOB'' \<longrightarrow>
          (v = String s \<longrightarrow> fst (Column L cur c) = Inr (ResultBlob s))
        \<and> (v = Bytes b \<longrightarrow> fst (Column L cur c) = Inr (ResultBlob b))
        \<and> ((\<forall>x. v \<noteq> String x) \<and> (\<forall>x. v \<noteq> Bytes x) \<longrightarrow>
             fst (Column L cur c) = Inl (TypeMismatch (Name cl) ''blob''))"
      using blob present by simp
  qed
qed

text \<open>
  The claim as it is written fails on a number that is not integer-valued: in the
  second example row the column \<open>age\<close>, declared \<open>INTEGER\<close>, holds \<open>30.5\<close>, and the
  read yields the integer 30 instead of failing with \<open>TypeMismatch\<close>.
\<close>

theorem Column_fraction_counterexample:
  "(exampleRows ! 1) ''age'' = Some (Float64 30.5)
   \<and> fst (Column exampleLib (Next exampleCursor) 1) = Inr (ResultInt64 30)
   \<and> fst (Column exampleLib (Next exampleCursor) 1) \<noteq> Inl (TypeMismatch ''age'' ''integer'')"
  by (simp add: Column_def Next_def exampleCursor_def exampleRows_def exampleColumns_def
      col_def coerce_def int64_of_float64_def truncate_real_def Let_def)

text \<open>
  The example of the specification: the column \<open>age\<close>, declared \<open>INTEGER\<close>, reads
  the number 30 as the integer 30 and fails on the string \<open>thirty\<close>. It reads
  \<open>30.5\<close> as 30 and \<open>- 30.5\<close> as \<open>- 30\<close>, and it reads \<open>2 ^ 63\<close> as the example
  implementation's value for a number out of range, \<open>- 2 ^ 63\<close>.
\<close>

theorem Column_reads_declared_type_witness:
  "0 \<le> sint (pos exampleCursor)
   \<and> sint (pos exampleCursor) < int (length (data exampleCursor))
   \<and> 0 \<le> sint (1 :: 64 word)
   \<and> sint (1 :: 64 word) < int (length (curColumns exampleCursor))
   \<and> Type (curColumns exampleCursor ! 1) = ''INTEGER''
   \<and> (data exampleCursor ! 0) ''age'' = Some (Float64 30)
   \<and> Column exampleLib exampleCursor 1 = (Inr (ResultInt64 30), exampleCursor)
   \<and> (data (Next (Next exampleCursor)) ! 2) ''age'' = Some (String ''thirty'')
   \<and> Column exampleLib (Next (Next exampleCursor)) 1
       = (Inl (TypeMismatch ''age'' ''integer''), Next (Next exampleCursor))
   \<and> (data (Next exampleCursor) ! 1) ''age'' = Some (Float64 30.5)
   \<and> fst (Column exampleLib (Next exampleCursor) 1) = Inr (ResultInt64 30)
   \<and> (data extremeCursor ! 0) ''age'' = Some (Float64 (- 30.5))
   \<and> fst (Column exampleLib extremeCursor 1) = Inr (ResultInt64 (- 30))
   \<and> (data (Next extremeCursor) ! 1) ''age'' = Some (Float64 (2 ^ 63))
   \<and> fst (Column exampleLib (Next extremeCursor) 1) = Inr (ResultInt64 (- (2 ^ 63)))"
proof -
  have h: "0 \<le> sint (pos exampleCursor)"
    "sint (pos exampleCursor) < int (length (data exampleCursor))"
    "0 \<le> sint (1 :: 64 word)"
    "sint (1 :: 64 word) < int (length (curColumns exampleCursor))"
    by (simp_all add: exampleCursor_def exampleRows_def exampleColumns_def)
  have h2: "0 \<le> sint (pos (Next (Next exampleCursor)))"
    "sint (pos (Next (Next exampleCursor))) < int (length (data (Next (Next exampleCursor))))"
    "sint (1 :: 64 word) < int (length (curColumns (Next (Next exampleCursor))))"
    by (simp_all add: Next_def exampleCursor_def exampleRows_def exampleColumns_def)
  have v: "(data exampleCursor ! nat (sint (pos exampleCursor)))
             (Name (curColumns exampleCursor ! nat (sint (1 :: 64 word)))) = Some (Float64 30)"
    "(data (Next (Next exampleCursor)) ! nat (sint (pos (Next (Next exampleCursor)))))
             (Name (curColumns (Next (Next exampleCursor)) ! nat (sint (1 :: 64 word))))
       = Some (String ''thirty'')"
    "Type (curColumns exampleCursor ! nat (sint (1 :: 64 word))) = ''INTEGER''"
    "Type (curColumns (Next (Next exampleCursor)) ! nat (sint (1 :: 64 word))) = ''INTEGER''"
    "Name (curColumns (Next (Next exampleCursor)) ! nat (sint (1 :: 64 word))) = ''age''"
    by (simp_all add: Next_def exampleCursor_def exampleRows_def exampleColumns_def col_def)
  have a: "Column exampleLib exampleCursor 1 = (Inr (ResultInt64 30), exampleCursor)"
    using v
      Column_reads_declared_type [OF h refl refl,
        where L = exampleLib and v = "Float64 30" and n = 30 and f = 30]
    by (simp add: prod_eq_iff int64_of_float64_def truncate_real_def)
  have b: "Column exampleLib (Next (Next exampleCursor)) 1
       = (Inl (TypeMismatch ''age'' ''integer''), Next (Next exampleCursor))"
    using v
      Column_reads_declared_type [OF h2(1,2) h(3) h2(3) refl refl,
        where L = exampleLib and v = "String ''thirty''"]
    by (simp add: prod_eq_iff)
  have h3: "0 \<le> sint (pos (Next exampleCursor))"
    "sint (pos (Next exampleCursor)) < int (length (data (Next exampleCursor)))"
    "sint (1 :: 64 word) < int (length (curColumns (Next exampleCursor)))"
    by (simp_all add: Next_def exampleCursor_def exampleRows_def exampleColumns_def)
  have v3: "(data (Next exampleCursor) ! nat (sint (pos (Next exampleCursor))))
             (Name (curColumns (Next exampleCursor) ! nat (sint (1 :: 64 word))))
       = Some (Float64 30.5)"
    "Type (curColumns (Next exampleCursor) ! nat (sint (1 :: 64 word))) = ''INTEGER''"
    "(data (Next exampleCursor) ! 1) ''age'' = Some (Float64 30.5)"
    by (simp_all add: Next_def exampleCursor_def exampleRows_def exampleColumns_def col_def)
  have fl: "\<lfloor>30.5 :: real\<rfloor> = 30"
    by simp
  have rng3: "(0 :: real) \<le> 30.5" "(30.5 :: real) < 2 ^ 63"
    by simp_all
  from v3(1,2) rng3
    Column_reads_declared_type [OF h3(1,2) h(3) h3(3) refl refl,
      where L = exampleLib and v = "Float64 30.5" and f = "30.5" and n = 0]
  have "fst (Column exampleLib (Next exampleCursor) 1)
      = Inr (ResultInt64 (word_of_int \<lfloor>30.5 :: real\<rfloor>))"
    by blast
  then have c: "fst (Column exampleLib (Next exampleCursor) 1) = Inr (ResultInt64 30)"
    by (simp only: fl) simp
  have h4: "0 \<le> sint (pos extremeCursor)"
    "sint (pos extremeCursor) < int (length (data extremeCursor))"
    "sint (1 :: 64 word) < int (length (curColumns extremeCursor))"
    by (simp_all add: extremeCursor_def exampleColumns_def)
  have v4: "(data extremeCursor ! nat (sint (pos extremeCursor)))
             (Name (curColumns extremeCursor ! nat (sint (1 :: 64 word))))
       = Some (Float64 (- 30.5))"
    "Type (curColumns extremeCursor ! nat (sint (1 :: 64 word))) = ''INTEGER''"
    "(data extremeCursor ! 0) ''age'' = Some (Float64 (- 30.5))"
    by (simp_all add: extremeCursor_def exampleColumns_def col_def)
  have ce: "\<lceil>- 30.5 :: real\<rceil> = - 30"
    by simp
  have rng4: "(- 30.5 :: real) < 0" "- (2 ^ 63) - 1 < (- 30.5 :: real)"
    by simp_all
  from v4(1,2) rng4
    Column_reads_declared_type [OF h4(1,2) h(3) h4(3) refl refl,
      where L = exampleLib and v = "Float64 (- 30.5)" and f = "- 30.5" and n = 0]
  have "fst (Column exampleLib extremeCursor 1)
      = Inr (ResultInt64 (word_of_int \<lceil>- 30.5 :: real\<rceil>))"
    by blast
  then have d: "fst (Column exampleLib extremeCursor 1) = Inr (ResultInt64 (- 30))"
    by (simp only: ce) simp
  have h5: "0 \<le> sint (pos (Next extremeCursor))"
    "sint (pos (Next extremeCursor)) < int (length (data (Next extremeCursor)))"
    "sint (1 :: 64 word) < int (length (curColumns (Next extremeCursor)))"
    by (simp_all add: Next_def extremeCursor_def exampleColumns_def)
  have v5: "(data (Next extremeCursor) ! nat (sint (pos (Next extremeCursor))))
             (Name (curColumns (Next extremeCursor) ! nat (sint (1 :: 64 word))))
       = Some (Float64 (2 ^ 63))"
    "Type (curColumns (Next extremeCursor) ! nat (sint (1 :: 64 word))) = ''INTEGER''"
    "(data (Next extremeCursor) ! 1) ''age'' = Some (Float64 (2 ^ 63))"
    by (simp_all add: Next_def extremeCursor_def exampleColumns_def col_def)
  have ov: "int64_overflow exampleLib (2 ^ 63) = - (2 ^ 63)"
    by (simp add: exampleLib_def)
  have rng5: "(2 ^ 63 :: real) \<le> 2 ^ 63 \<or> (2 ^ 63 :: real) \<le> - (2 ^ 63) - 1"
    by simp
  from v5(1,2) rng5
    Column_reads_declared_type [OF h5(1,2) h(3) h5(3) refl refl,
      where L = exampleLib and v = "Float64 (2 ^ 63)" and f = "2 ^ 63" and n = 0]
  have "fst (Column exampleLib (Next extremeCursor) 1)
      = Inr (ResultInt64 (int64_overflow exampleLib (2 ^ 63)))"
    by blast
  then have e: "fst (Column exampleLib (Next extremeCursor) 1) = Inr (ResultInt64 (- (2 ^ 63)))"
    by (simp only: ov)
  have rest: "(data (Next exampleCursor) ! 1) ''age'' = Some (Float64 30.5)
      \<and> fst (Column exampleLib (Next exampleCursor) 1) = Inr (ResultInt64 30)
      \<and> (data extremeCursor ! 0) ''age'' = Some (Float64 (- 30.5))
      \<and> fst (Column exampleLib extremeCursor 1) = Inr (ResultInt64 (- 30))
      \<and> (data (Next extremeCursor) ! 1) ''age'' = Some (Float64 (2 ^ 63))
      \<and> fst (Column exampleLib (Next extremeCursor) 1) = Inr (ResultInt64 (- (2 ^ 63)))"
    using v3(3) c v4(3) d v5(3) e by (simp only: simp_thms)
  have first: "0 \<le> sint (pos exampleCursor)
   \<and> sint (pos exampleCursor) < int (length (data exampleCursor))
   \<and> 0 \<le> sint (1 :: 64 word)
   \<and> sint (1 :: 64 word) < int (length (curColumns exampleCursor))
   \<and> Type (curColumns exampleCursor ! 1) = ''INTEGER''
   \<and> (data exampleCursor ! 0) ''age'' = Some (Float64 30)
   \<and> Column exampleLib exampleCursor 1 = (Inr (ResultInt64 30), exampleCursor)
   \<and> (data (Next (Next exampleCursor)) ! 2) ''age'' = Some (String ''thirty'')
   \<and> Column exampleLib (Next (Next exampleCursor)) 1
       = (Inl (TypeMismatch ''age'' ''integer''), Next (Next exampleCursor))"
    using h a b v
    by (simp add: Next_def exampleCursor_def exampleRows_def exampleColumns_def col_def)
  from first rest show ?thesis
    by (simp only: simp_thms)
qed

text \<open>
  Claim C9. At a position and a column index within bounds, if the row holds the
  column's key with the value \<^verbatim>\<open>nil\<close> (a JSON \<^verbatim>\<open>null\<close>), \<^verbatim>\<open>Column\<close> does not
  signal null: it fails, with \<open>TypeMismatch\<close> for each of the four valid column
  types, and leaves the cursor as it was.
\<close>

theorem Column_explicit_null:
  assumes "0 \<le> sint (pos cur)" "sint (pos cur) < int (length (data cur))"
    "0 \<le> sint c" "sint c < int (length (curColumns cur))"
    and cl: "cl = curColumns cur ! nat (sint c)"
    and nil: "(data cur ! nat (sint (pos cur))) (Name cl) = Some NilVal"
  shows
    "fst (Column L cur c) \<noteq> Inr ResultNull
     \<and> (\<exists>e. fst (Column L cur c) = Inl e)
     \<and> (validTypes (Type cl) \<longrightarrow> (\<exists>t. fst (Column L cur c) = Inl (TypeMismatch (Name cl) t)))
     \<and> (Type cl = ''INTEGER'' \<longrightarrow> fst (Column L cur c) = Inl (TypeMismatch (Name cl) ''integer''))
     \<and> (Type cl = ''TEXT'' \<longrightarrow> fst (Column L cur c) = Inl (TypeMismatch (Name cl) ''text''))
     \<and> (Type cl = ''REAL'' \<longrightarrow> fst (Column L cur c) = Inl (TypeMismatch (Name cl) ''real''))
     \<and> (Type cl = ''BLOB'' \<longrightarrow> fst (Column L cur c) = Inl (TypeMismatch (Name cl) ''blob''))
     \<and> snd (Column L cur c) = cur"
proof -
  have C: "Column L cur c = (coerce L (Type cl) (Name cl) NilVal, cur)"
    using Column_in_range [OF assms(1-4), of L] nil by (simp add: cl)
  have valid: "validTypes (Type cl) \<Longrightarrow>
      Type cl = ''INTEGER'' \<or> Type cl = ''TEXT'' \<or> Type cl = ''REAL'' \<or> Type cl = ''BLOB''"
    by (simp add: validTypes_def split: if_splits)
  show ?thesis
    using valid by (auto simp: C coerce_def)
qed

text \<open>In the second example row the key \<open>name\<close> of the \<open>TEXT\<close> column holds \<^verbatim>\<open>nil\<close>.\<close>

theorem Column_explicit_null_witness:
  "0 \<le> sint (pos (Next exampleCursor))
   \<and> sint (pos (Next exampleCursor)) < int (length (data (Next exampleCursor)))
   \<and> 0 \<le> sint (2 :: 64 word)
   \<and> sint (2 :: 64 word) < int (length (curColumns (Next exampleCursor)))
   \<and> (data (Next exampleCursor) ! 1) ''name'' = Some NilVal
   \<and> fst (Column exampleLib (Next exampleCursor) 2) = Inl (TypeMismatch ''name'' ''text'')"
proof -
  have h: "0 \<le> sint (pos (Next exampleCursor))"
    "sint (pos (Next exampleCursor)) < int (length (data (Next exampleCursor)))"
    "0 \<le> sint (2 :: 64 word)"
    "sint (2 :: 64 word) < int (length (curColumns (Next exampleCursor)))"
    by (simp_all add: Next_def exampleCursor_def exampleRows_def exampleColumns_def)
  have n: "(data (Next exampleCursor) ! nat (sint (pos (Next exampleCursor))))
      (Name (curColumns (Next exampleCursor) ! nat (sint (2 :: 64 word)))) = Some NilVal"
    and t: "Type (curColumns (Next exampleCursor) ! nat (sint (2 :: 64 word))) = ''TEXT''"
    and m: "Name (curColumns (Next exampleCursor) ! nat (sint (2 :: 64 word))) = ''name''"
    and d: "(data (Next exampleCursor) ! 1) ''name'' = Some NilVal"
    by (simp_all add: Next_def exampleCursor_def exampleRows_def exampleColumns_def col_def)
  show ?thesis
    using h d t m Column_explicit_null [OF h refl n, of exampleLib]
    by simp
qed


end
